theory Spec2Isabelle
  imports Main "HOL-Library.Word" "HOL-Library.Sublist"
begin

section \<open>Data model of package upstreamwatchers\<close>

text \<open>
  Go strings and byte slices are byte sequences; both are modelled by \<open>string\<close>.
  A Go \<open>error\<close> is modelled by its text (\<open>err.Error()\<close>), the only thing the code reads
  of it: \<open>string option\<close> is an error that may be nil, and a sum type is a result with an
  error (\<open>Inl\<close> the error). A pointer to a condition, which the code lets be nil, is an
  \<open>option\<close>; the pointer \<open>config\<close>, which every function writes through unchecked, is the
  configuration itself, passed in and returned.
\<close>

subsection \<open>Constants\<close>

definition ReasonNotFound :: string where "ReasonNotFound = ''SecretNotFound''"
definition ReasonWrongType :: string where "ReasonWrongType = ''SecretWrongType''"
definition ReasonMissingKeys :: string where "ReasonMissingKeys = ''SecretMissingKeys''"
definition ReasonSuccess :: string where "ReasonSuccess = ''Success''"
definition ReasonInvalidTLSConfig :: string where "ReasonInvalidTLSConfig = ''InvalidTLSConfig''"
definition ErrNoCertificates :: string where "ErrNoCertificates = ''no certificates found''"
definition typeBindSecretValid :: string where "typeBindSecretValid = ''BindSecretValid''"
definition typeTLSConfigurationValid :: string where
  "typeTLSConfigurationValid = ''TLSConfigurationValid''"
definition typeLDAPConnectionValid :: string where
  "typeLDAPConnectionValid = ''LDAPConnectionValid''"
definition TypeSearchBaseFound :: string where "TypeSearchBaseFound = ''SearchBaseFound''"
definition reasonLDAPConnectionError :: string where
  "reasonLDAPConnectionError = ''LDAPConnectionError''"
definition noTLSConfigurationMessage :: string where
  "noTLSConfigurationMessage = ''no TLS configuration provided''"
definition loadedTLSConfigurationMessage :: string where
  "loadedTLSConfigurationMessage = ''loaded TLS configuration''"

text \<open>
  Constants of the Kubernetes core API used by the code (\<open>corev1.SecretTypeBasicAuth\<close>,
  \<open>corev1.BasicAuthUsernameKey\<close>, \<open>corev1.BasicAuthPasswordKey\<close>); their values are the ones
  the repository's tests expect in the condition messages.
\<close>

definition SecretTypeBasicAuth :: string where "SecretTypeBasicAuth = ''kubernetes.io/basic-auth''"
definition BasicAuthUsernameKey :: string where "BasicAuthUsernameKey = ''username''"
definition BasicAuthPasswordKey :: string where "BasicAuthPasswordKey = ''password''"

subsection \<open>Conditions\<close>

text \<open>
  \<open>v1alpha1.ConditionStatus\<close> is a string type; the code only ever compares a status with
  \<open>v1alpha1.ConditionTrue\<close>. The tests write the two statuses as \<open>"True"\<close> and \<open>"False"\<close>.
\<close>

type_synonym ConditionStatus = string

definition ConditionTrue :: ConditionStatus where "ConditionTrue = ''True''"
definition ConditionFalse :: ConditionStatus where "ConditionFalse = ''False''"

record Condition =
  Type :: string
  Status :: ConditionStatus
  Reason :: string
  Message :: string
  ObservedGeneration :: "64 word"

text \<open>
  \<open>(*Condition).DeepCopy\<close>: nil for nil, otherwise a fresh copy with the same field values.
  Values of the model are never shared, so the copy is the value itself.
\<close>

definition DeepCopy :: "Condition option \<Rightarrow> Condition option" where
  "DeepCopy c = (case c of None \<Rightarrow> None | Some v \<Rightarrow> Some v)"

subsection \<open>Provider configuration (package upstreamldap)\<close>

text \<open>
  Modelled from the spec: the declaration of \<open>upstreamldap.LDAPConnectionProtocol\<close> is not
  among the sources. It is a closed enumeration of two values, TLS and StartTLS. As the
  other enumerations of these packages it is taken over strings, so that the zero value of
  a configuration or of a cache entry names neither protocol.
\<close>

type_synonym LDAPConnectionProtocol = string

definition TLS :: LDAPConnectionProtocol where "TLS = ''TLS''"
definition StartTLS :: LDAPConnectionProtocol where "StartTLS = ''StartTLS''"

record UserSearchConfig =
  Base_user :: string
  Filter_user :: string
  UsernameAttribute :: string
  UIDAttribute :: string

record GroupSearchConfig =
  Base_group :: string
  Filter_group :: string
  GroupNameAttribute :: string

text \<open>
  The fields of \<open>upstreamldap.ProviderConfig\<close> that the sources name. Its tables of parsing
  overrides and refresh checks are never read or written by the functions below.
\<close>

record ProviderConfig =
  Name :: string
  ResourceUID :: string
  Host :: string
  ConnectionProtocol :: LDAPConnectionProtocol
  CABundle :: string
  BindUsername :: string
  BindPassword :: string
  UserSearch :: UserSearchConfig
  GroupSearch :: GroupSearchConfig

text \<open>\<open>upstreamldap.New(config)\<close>: a provider holding its own copy of the configuration.\<close>

datatype Provider = New ProviderConfig

subsection \<open>The validated settings cache\<close>

record ValidatedSettings =
  IDPSpecGeneration :: "64 word"
  BindSecretResourceVersion :: string
  LDAPConnectionProtocol :: LDAPConnectionProtocol
  UserSearchBase :: string
  GroupSearchBase :: string
  ConnectionValidCondition :: "Condition option"
  SearchBaseFoundCondition :: "Condition option"

text \<open>The zero value \<open>ValidatedSettings{}\<close>.\<close>

definition zeroValidatedSettings :: ValidatedSettings where
  "zeroValidatedSettings =
     \<lparr>IDPSpecGeneration = 0, BindSecretResourceVersion = [], LDAPConnectionProtocol = [],
      UserSearchBase = [], GroupSearchBase = [],
      ConnectionValidCondition = None, SearchBaseFoundCondition = None\<rparr>"

record ValidatedSettingsCache =
  ValidatedSettingsByName :: "string \<rightharpoonup> ValidatedSettings"

definition NewValidatedSettingsCache :: ValidatedSettingsCache where
  "NewValidatedSettingsCache = \<lparr>ValidatedSettingsByName = Map.empty\<rparr>"

definition Get :: "ValidatedSettingsCache \<Rightarrow> string \<Rightarrow> string \<Rightarrow> 64 word \<Rightarrow> ValidatedSettings \<times> bool" where
  "Get s upstreamName resourceVersion idpSpecGeneration =
     (case ValidatedSettingsByName s upstreamName of
        Some validatedSettings \<Rightarrow>
          if BindSecretResourceVersion validatedSettings = resourceVersion
             \<and> IDPSpecGeneration validatedSettings = idpSpecGeneration
          then (validatedSettings, True)
          else (zeroValidatedSettings, False)
      | None \<Rightarrow> (zeroValidatedSettings, False))"

definition Set_cache :: "ValidatedSettingsCache \<Rightarrow> string \<Rightarrow> ValidatedSettings \<Rightarrow> ValidatedSettingsCache" where
  "Set_cache s upstreamName settings =
     s\<lparr>ValidatedSettingsByName := (ValidatedSettingsByName s)(upstreamName \<mapsto> settings)\<rparr>"

text \<open>
  A sequence of operations on one cache. \<open>Get\<close> does not change the cache, so running a
  sequence only has to replay its \<open>Set\<close>s.
\<close>

datatype cache_op =
  SetOp string ValidatedSettings
| GetOp string string "64 word"

fun apply_op :: "ValidatedSettingsCache \<Rightarrow> cache_op \<Rightarrow> ValidatedSettingsCache" where
  "apply_op s (SetOp n v) = Set_cache s n v"
| "apply_op s (GetOp n rv g) = s"

definition run_ops :: "cache_op list \<Rightarrow> ValidatedSettingsCache" where
  "run_ops ops = foldl apply_op NewValidatedSettingsCache ops"

text \<open>
  The words of the specification: the entry most recently stored under a name by \<open>Set\<close>,
  read off the history of operations (oldest first).
\<close>

fun most_recently_stored :: "string \<Rightarrow> cache_op list \<Rightarrow> ValidatedSettings option" where
  "most_recently_stored n [] = None"
| "most_recently_stored n (SetOp m v # ops) =
     (case most_recently_stored n ops of
        Some w \<Rightarrow> Some w
      | None \<Rightarrow> if m = n then Some v else None)"
| "most_recently_stored n (GetOp m rv g # ops) = most_recently_stored n ops"

subsection \<open>Gradated conditions\<close>

record gradatedCondition =
  condition :: "Condition option"
  isFatal :: bool

record GradatedConditions =
  gradatedConditions :: "gradatedCondition list"

definition Conditions :: "GradatedConditions \<Rightarrow> Condition option list" where
  "Conditions g = map condition (gradatedConditions g)"

definition Append :: "GradatedConditions \<Rightarrow> Condition option \<Rightarrow> bool \<Rightarrow> GradatedConditions" where
  "Append g c fatal =
     g\<lparr>gradatedConditions := gradatedConditions g @ [\<lparr>condition = c, isFatal = fatal\<rparr>]\<rparr>"

subsection \<open>EvaluateConditions\<close>

text \<open>Reading a field through a nil pointer panics.\<close>

datatype panic = NilPointerDereference

text \<open>
  The first loop: \<open>Inr True\<close> when it returns from the function (a fatal condition is not
  true), \<open>Inr False\<close> when it runs to the end of the list.
\<close>

fun fatalLoop :: "gradatedCondition list \<Rightarrow> panic + bool" where
  "fatalLoop [] = Inr False"
| "fatalLoop (g # gs) =
     (case condition g of
        None \<Rightarrow> Inl NilPointerDereference
      | Some c \<Rightarrow> if Status c \<noteq> ConditionTrue \<and> isFatal g then Inr True else fatalLoop gs)"

text \<open>The second loop, likewise, for the conditions that are not fatal.\<close>

fun warningLoop :: "gradatedCondition list \<Rightarrow> panic + bool" where
  "warningLoop [] = Inr False"
| "warningLoop (g # gs) =
     (case condition g of
        None \<Rightarrow> Inl NilPointerDereference
      | Some c \<Rightarrow> if Status c \<noteq> ConditionTrue \<and> \<not> isFatal g then Inr True else warningLoop gs)"

definition EvaluateConditions :: "GradatedConditions \<Rightarrow> ProviderConfig \<Rightarrow> panic + (Provider option \<times> bool)" where
  "EvaluateConditions conditions config =
     (case fatalLoop (gradatedConditions conditions) of
        Inl p \<Rightarrow> Inl p
      | Inr True \<Rightarrow> Inr (None, True)
      | Inr False \<Rightarrow>
          (case warningLoop (gradatedConditions conditions) of
             Inl p \<Rightarrow> Inl p
           | Inr True \<Rightarrow> Inr (Some (New config), True)
           | Inr False \<Rightarrow> Inr (Some (New config), False)))"

text \<open>
  The tiers in the words of the specification, where a condition "is false" when its
  status is \<open>v1alpha1.ConditionFalse\<close>.
\<close>

definition isFalse :: "gradatedCondition \<Rightarrow> bool" where
  "isFalse g = (map_option Status (condition g) = Some ConditionFalse)"

definition claimed_EvaluateConditions :: "gradatedCondition list \<Rightarrow> ProviderConfig \<Rightarrow> Provider option \<times> bool" where
  "claimed_EvaluateConditions gs config =
     (if list_ex (\<lambda>g. isFatal g \<and> isFalse g) gs then (None, True)
      else if list_ex (\<lambda>g. \<not> isFatal g \<and> isFalse g) gs then (Some (New config), True)
      else (Some (New config), False))"

text \<open>What the code tests: a status other than \<open>v1alpha1.ConditionTrue\<close>.\<close>

definition notTrue :: "gradatedCondition \<Rightarrow> bool" where
  "notTrue g = (map_option Status (condition g) \<noteq> Some ConditionTrue)"

subsection \<open>Collaborators\<close>

text \<open>
  The code reaches outside the package in five places. Each is a parameter of the model:
  \<^item> \<open>secretInformer.Lister().Secrets(namespace).Get(name)\<close>, the secret lookup. Its error
    is a not-found error or any other, unexpected, failure; the code does not tell them
    apart and reads the text only;
  \<^item> \<open>base64.StdEncoding.DecodeString\<close>;
  \<^item> \<open>x509.NewCertPool().AppendCertsFromPEM\<close>, true when a certificate was parsed;
  \<^item> \<open>upstreamldap.New(config).TestConnection(ctx)\<close>, the dial and bind against the server
    with a copy of the configuration, under the 90 second timeout of its context;
  \<^item> the quoting of the verb \<open>%q\<close> of \<open>fmt.Sprintf\<close> for a string.
\<close>

datatype lookupError = NotFoundError string | UnexpectedError string

fun Error :: "lookupError \<Rightarrow> string" where
  "Error (NotFoundError msg) = msg"
| "Error (UnexpectedError msg) = msg"

record Secret =
  Type_secret :: string
  ResourceVersion :: string
  Data :: "string \<rightharpoonup> string"

record TLSSpec =
  CertificateAuthorityData :: string

record Collaborators =
  SecretsGet :: "string \<Rightarrow> string \<Rightarrow> lookupError + Secret"
  DecodeString :: "string \<Rightarrow> string + string"
  AppendCertsFromPEM :: "string \<Rightarrow> bool"
  ProviderTestConnection :: "ProviderConfig \<Rightarrow> string option"
  Quote :: "string \<Rightarrow> string"

text \<open>
  What the code does to the directory server, in order: every dial and bind, with the
  configuration the provider was built from, and every search base detection, with the
  configuration it was handed.
\<close>

datatype event =
  ConnectAndBind ProviderConfig
| DetectSearchBase ProviderConfig

text \<open>
  The upstream, as the interfaces \<open>UpstreamGenericLDAPIDP\<close> and \<open>UpstreamGenericLDAPSpec\<close>
  show it. \<open>DetectAndSetSearchBase\<close> returns its condition (nil when it has none) and the
  configuration as it leaves it.
\<close>

record UpstreamSpec =
  Host_spec :: string
  TLSSpec :: "TLSSpec option"
  BindSecretName :: string
  DetectAndSetSearchBase :: "ProviderConfig \<Rightarrow> Condition option \<times> ProviderConfig"

record Upstream =
  Name_idp :: string
  Namespace :: string
  Generation :: "64 word"
  Spec :: UpstreamSpec

subsection \<open>ValidateTLSConfig\<close>

definition validTLSCondition :: "string \<Rightarrow> Condition" where
  "validTLSCondition message =
     \<lparr>Type = typeTLSConfigurationValid, Status = ConditionTrue, Reason = ReasonSuccess,
      Message = message, ObservedGeneration = 0\<rparr>"

definition invalidTLSCondition :: "string \<Rightarrow> Condition" where
  "invalidTLSCondition message =
     \<lparr>Type = typeTLSConfigurationValid, Status = ConditionFalse, Reason = ReasonInvalidTLSConfig,
      Message = message, ObservedGeneration = 0\<rparr>"

definition ValidateTLSConfig :: "Collaborators \<Rightarrow> TLSSpec option \<Rightarrow> ProviderConfig \<Rightarrow> Condition \<times> ProviderConfig" where
  "ValidateTLSConfig env tlsSpec config =
     (case tlsSpec of
        None \<Rightarrow> (validTLSCondition noTLSConfigurationMessage, config)
      | Some spec \<Rightarrow>
          if length (CertificateAuthorityData spec) = 0
          then (validTLSCondition loadedTLSConfigurationMessage, config)
          else
            (case DecodeString env (CertificateAuthorityData spec) of
               Inl err \<Rightarrow>
                 (invalidTLSCondition (''certificateAuthorityData is invalid: '' @ err), config)
             | Inr bundle \<Rightarrow>
                 if \<not> AppendCertsFromPEM env bundle
                 then (invalidTLSCondition
                         (''certificateAuthorityData is invalid: '' @ ErrNoCertificates), config)
                 else (validTLSCondition loadedTLSConfigurationMessage,
                       config\<lparr>CABundle := bundle\<rparr>)))"

subsection \<open>TestConnection\<close>

text \<open>The double quote character of the message formats.\<close>

definition dquote :: string where
  "dquote = [CHR 0x22]"

text \<open>The condition built at the end of \<open>TestConnection\<close> from the error that is left.\<close>

definition connectionCondition :: "string option \<Rightarrow> string \<Rightarrow> ProviderConfig \<Rightarrow> string \<Rightarrow> Condition" where
  "connectionCondition err bindSecretName config currentSecretVersion =
     (case err of
        Some e \<Rightarrow>
          \<lparr>Type = typeLDAPConnectionValid, Status = ConditionFalse,
           Reason = reasonLDAPConnectionError,
           Message = ''could not successfully connect to '' @ dquote @ Host config @ dquote
                     @ '' and bind as user '' @ dquote @ BindUsername config @ dquote
                     @ '': '' @ e,
           ObservedGeneration = 0\<rparr>
      | None \<Rightarrow>
          \<lparr>Type = typeLDAPConnectionValid, Status = ConditionTrue, Reason = ReasonSuccess,
           Message = ''successfully able to connect to '' @ dquote @ Host config @ dquote
                     @ '' and bind as user '' @ dquote @ BindUsername config @ dquote
                     @ '' [validated with Secret '' @ dquote @ bindSecretName @ dquote
                     @ '' at version '' @ dquote @ currentSecretVersion @ dquote @ '']'',
           ObservedGeneration = 0\<rparr>)"

definition TestConnection :: "Collaborators \<Rightarrow> string \<Rightarrow> ProviderConfig \<Rightarrow> string \<Rightarrow> event list \<Rightarrow> Condition \<times> ProviderConfig \<times> event list" where
  "TestConnection env bindSecretName config currentSecretVersion log =
     (let config1 = config\<lparr>ConnectionProtocol := TLS\<rparr>;
          err = ProviderTestConnection env config1;
          log1 = log @ [ConnectAndBind config1]
      in case err of
           None \<Rightarrow>
             (connectionCondition None bindSecretName config1 currentSecretVersion, config1, log1)
         | Some e \<Rightarrow>
             (let config2 = config1\<lparr>ConnectionProtocol := StartTLS\<rparr>;
                  startTLSErr = ProviderTestConnection env config2;
                  log2 = log1 @ [ConnectAndBind config2]
              in case startTLSErr of
                   None \<Rightarrow>
                     (connectionCondition None bindSecretName config2 currentSecretVersion,
                      config2, log2)
                 | Some e2 \<Rightarrow>
                     (let config3 = config2\<lparr>ConnectionProtocol := TLS\<rparr>
                      in (connectionCondition (Some e) bindSecretName config3 currentSecretVersion,
                          config3, log2))))"

subsection \<open>ValidateSecret\<close>

text \<open>\<open>string(secret.Data[key])\<close>: the empty string for a key the map does not have.\<close>

definition dataString :: "Secret \<Rightarrow> string \<Rightarrow> string" where
  "dataString secret key = (case Data secret key of None \<Rightarrow> [] | Some bytes \<Rightarrow> bytes)"

definition ValidateSecret :: "Collaborators \<Rightarrow> string \<Rightarrow> string \<Rightarrow> ProviderConfig \<Rightarrow> Condition \<times> string \<times> ProviderConfig" where
  "ValidateSecret env secretName secretNamespace config =
     (case SecretsGet env secretNamespace secretName of
        Inl err \<Rightarrow>
          (\<lparr>Type = typeBindSecretValid, Status = ConditionFalse, Reason = ReasonNotFound,
            Message = Error err, ObservedGeneration = 0\<rparr>, [], config)
      | Inr secret \<Rightarrow>
          if Type_secret secret \<noteq> SecretTypeBasicAuth
          then (\<lparr>Type = typeBindSecretValid, Status = ConditionFalse, Reason = ReasonWrongType,
                 Message = ''referenced Secret '' @ Quote env secretName @ '' has wrong type ''
                           @ Quote env (Type_secret secret) @ '' (should be ''
                           @ Quote env SecretTypeBasicAuth @ '')'',
                 ObservedGeneration = 0\<rparr>, ResourceVersion secret, config)
          else
            (let config1 = config\<lparr>BindUsername := dataString secret BasicAuthUsernameKey\<rparr>;
                 config2 = config1\<lparr>BindPassword := dataString secret BasicAuthPasswordKey\<rparr>
             in if length (BindUsername config2) = 0 \<or> length (BindPassword config2) = 0
                then (\<lparr>Type = typeBindSecretValid, Status = ConditionFalse,
                       Reason = ReasonMissingKeys,
                       Message = ''referenced Secret '' @ Quote env secretName
                                 @ '' is missing required keys ['' @ Quote env BasicAuthUsernameKey
                                 @ '' '' @ Quote env BasicAuthPasswordKey @ '']'',
                       ObservedGeneration = 0\<rparr>, ResourceVersion secret, config2)
                else (\<lparr>Type = typeBindSecretValid, Status = ConditionTrue,
                       Reason = ReasonSuccess, Message = ''loaded bind secret'',
                       ObservedGeneration = 0\<rparr>, ResourceVersion secret, config2)))"

text \<open>
  The secret lookup step in the words of the specification: an unexpected failure of the
  lookup is returned as a plain error, and only the other outcomes become conditions.
\<close>

definition claimed_ValidateSecret :: "Collaborators \<Rightarrow> string \<Rightarrow> string \<Rightarrow> ProviderConfig \<Rightarrow> string + (Condition \<times> string \<times> ProviderConfig)" where
  "claimed_ValidateSecret env secretName secretNamespace config =
     (case SecretsGet env secretNamespace secretName of
        Inl (UnexpectedError msg) \<Rightarrow> Inl msg
      | _ \<Rightarrow> Inr (ValidateSecret env secretName secretNamespace config))"

subsection \<open>ValidateGenericLDAP\<close>

text \<open>
  The state the two functions work on is passed through them: the cache, the
  configuration behind the pointer \<open>config\<close>, and the log of what was done to the server.
\<close>

definition validateAndSetLDAPServerConnectivityAndSearchBase :: "Collaborators \<Rightarrow> ValidatedSettingsCache \<Rightarrow> Upstream \<Rightarrow> ProviderConfig \<Rightarrow> string \<Rightarrow> event list \<Rightarrow> Condition option \<times> Condition option \<times> ValidatedSettingsCache \<times> ProviderConfig \<times> event list" where
  "validateAndSetLDAPServerConnectivityAndSearchBase env validatedSettingsCache upstream config
     currentSecretVersion log =
     (let (validatedSettings, hasPreviousValidatedSettings) =
            Get validatedSettingsCache (Name_idp upstream) currentSecretVersion (Generation upstream)
      in if hasPreviousValidatedSettings \<and> UserSearchBase validatedSettings \<noteq> []
            \<and> GroupSearchBase validatedSettings \<noteq> []
         then
           (let config1 = config\<lparr>ConnectionProtocol := LDAPConnectionProtocol validatedSettings\<rparr>;
                config2 = config1\<lparr>UserSearch :=
                            (UserSearch config1)\<lparr>Base_user := UserSearchBase validatedSettings\<rparr>\<rparr>;
                config3 = config2\<lparr>GroupSearch :=
                            (GroupSearch config2)\<lparr>Base_group := GroupSearchBase validatedSettings\<rparr>\<rparr>
            in (DeepCopy (ConnectionValidCondition validatedSettings),
                DeepCopy (SearchBaseFoundCondition validatedSettings),
                validatedSettingsCache, config3, log))
         else
           (let (ldapConnectionValidCondition, config1, log1) =
                  TestConnection env (BindSecretName (Spec upstream)) config currentSecretVersion log;
                (searchBaseFoundCondition, config2) =
                  DetectAndSetSearchBase (Spec upstream) config1;
                log2 = log1 @ [DetectSearchBase config1];
                cache' =
                  (if Status ldapConnectionValidCondition = ConditionTrue
                      \<and> (case searchBaseFoundCondition of
                            None \<Rightarrow> True
                          | Some c \<Rightarrow> Status c = ConditionTrue)
                   then Set_cache validatedSettingsCache (Name_idp upstream)
                          \<lparr>IDPSpecGeneration = Generation upstream,
                           BindSecretResourceVersion = currentSecretVersion,
                           LDAPConnectionProtocol = ConnectionProtocol config2,
                           UserSearchBase = Base_user (UserSearch config2),
                           GroupSearchBase = Base_group (GroupSearch config2),
                           ConnectionValidCondition = DeepCopy (Some ldapConnectionValidCondition),
                           SearchBaseFoundCondition = DeepCopy searchBaseFoundCondition\<rparr>
                   else validatedSettingsCache)
            in (Some ldapConnectionValidCondition, searchBaseFoundCondition, cache', config2, log2)))"

definition ValidateGenericLDAP :: "Collaborators \<Rightarrow> Upstream \<Rightarrow> ValidatedSettingsCache \<Rightarrow> ProviderConfig \<Rightarrow> event list \<Rightarrow> GradatedConditions \<times> ValidatedSettingsCache \<times> ProviderConfig \<times> event list" where
  "ValidateGenericLDAP env upstream validatedSettingsCache config log =
     (let conditions0 = \<lparr>gradatedConditions = []\<rparr>;
          (secretValidCondition, currentSecretVersion, config1) =
            ValidateSecret env (BindSecretName (Spec upstream)) (Namespace upstream) config;
          conditions1 = Append conditions0 (Some secretValidCondition) True;
          (tlsValidCondition, config2) = ValidateTLSConfig env (TLSSpec (Spec upstream)) config1;
          conditions2 = Append conditions1 (Some tlsValidCondition) True
      in if Status secretValidCondition = ConditionTrue \<and> Status tlsValidCondition = ConditionTrue
         then
           (let (ldapConnectionValidCondition, searchBaseFoundCondition, cache', config3, log') =
                  validateAndSetLDAPServerConnectivityAndSearchBase env validatedSettingsCache
                    upstream config2 currentSecretVersion log;
                conditions3 = Append conditions2 ldapConnectionValidCondition False;
                conditions4 =
                  (case searchBaseFoundCondition of
                     None \<Rightarrow> conditions3
                   | Some c \<Rightarrow> Append conditions3 searchBaseFoundCondition True)
            in (conditions4, cache', config3, log'))
         else (conditions2, validatedSettingsCache, config2, log))"

text \<open>
  What the code keeps true of its cache: the connection condition of every entry is an
  LDAPConnectionValid condition of status true.
\<close>

definition cachedConnectionsValid :: "ValidatedSettingsCache \<Rightarrow> bool" where
  "cachedConnectionsValid cache =
     (\<forall>n vs. ValidatedSettingsByName cache n = Some vs \<longrightarrow>
        (\<exists>c. ConnectionValidCondition vs = Some c
             \<and> Type c = typeLDAPConnectionValid \<and> Status c = ConditionTrue))"

subsection \<open>Example inputs\<close>

definition exampleConfig :: ProviderConfig where
  "exampleConfig =
     \<lparr>Name = ''idp1'', ResourceUID = ''uid-1'', Host = ''ldap.example.com:636'',
      ConnectionProtocol = [], CABundle = [], BindUsername = [], BindPassword = [],
      UserSearch = \<lparr>Base_user = ''ou=users,dc=example,dc=com'', Filter_user = [],
                    UsernameAttribute = ''uid'', UIDAttribute = ''uidNumber''\<rparr>,
      GroupSearch = \<lparr>Base_group = ''ou=groups,dc=example,dc=com'', Filter_group = [],
                     GroupNameAttribute = ''cn''\<rparr>\<rparr>"

definition exampleCondition :: "string \<Rightarrow> ConditionStatus \<Rightarrow> Condition" where
  "exampleCondition t s =
     \<lparr>Type = t, Status = s, Reason = ''SomeReason'', Message = ''some message'',
      ObservedGeneration = 0\<rparr>"

definition exampleEnv :: Collaborators where
  "exampleEnv =
     \<lparr>SecretsGet = (\<lambda>namespace name.
        if namespace = ''pinniped'' \<and> name = ''bind-secret''
        then Inr \<lparr>Type_secret = SecretTypeBasicAuth, ResourceVersion = ''4242'',
                 Data = [''username'' \<mapsto> ''cn=admin'', ''password'' \<mapsto> ''hunter2'']\<rparr>
        else Inl (NotFoundError ''secret not found'')),
      DecodeString = (\<lambda>s. if s = ''Q0VSVA=='' then Inr ''CERT''
                           else if s = ''Zm9v'' then Inr ''foo''
                           else Inl ''illegal base64 data at input byte 4''),
      AppendCertsFromPEM = (\<lambda>bundle. bundle = ''CERT''),
      ProviderTestConnection = (\<lambda>config.
        if ConnectionProtocol config = TLS then Some ''some dial error'' else None),
      Quote = (\<lambda>s. dquote @ s @ dquote)\<rparr>"

definition exampleEnvTLS :: Collaborators where
  "exampleEnvTLS = exampleEnv\<lparr>ProviderTestConnection := (\<lambda>config. None)\<rparr>"

definition exampleEnvDown :: Collaborators where
  "exampleEnvDown = exampleEnv\<lparr>ProviderTestConnection := (\<lambda>config.
     if ConnectionProtocol config = TLS then Some ''some dial error''
     else Some ''StartTLS is not supported'')\<rparr>"

definition exampleUpstream :: Upstream where
  "exampleUpstream =
     \<lparr>Name_idp = ''idp1'', Namespace = ''pinniped'', Generation = 1234,
      Spec = \<lparr>Host_spec = ''ldap.example.com:636'', TLSSpec = None,
              BindSecretName = ''bind-secret'',
              DetectAndSetSearchBase = (\<lambda>config. (None, config))\<rparr>\<rparr>"

definition exampleSettings :: ValidatedSettings where
  "exampleSettings =
     \<lparr>IDPSpecGeneration = 1234, BindSecretResourceVersion = ''4242'',
      LDAPConnectionProtocol = StartTLS,
      UserSearchBase = ''ou=people,dc=example,dc=com'',
      GroupSearchBase = ''ou=teams,dc=example,dc=com'',
      ConnectionValidCondition = Some (exampleCondition typeLDAPConnectionValid ConditionTrue),
      SearchBaseFoundCondition = None\<rparr>"

definition exampleCache :: ValidatedSettingsCache where
  "exampleCache = Set_cache NewValidatedSettingsCache ''idp1'' exampleSettings"

definition exampleUpstreamAD :: Upstream where
  "exampleUpstreamAD =
     exampleUpstream\<lparr>Spec := (Spec exampleUpstream)\<lparr>DetectAndSetSearchBase := (\<lambda>config.
       (Some \<lparr>Type = TypeSearchBaseFound, Status = ConditionFalse,
               Reason = ''ErrorFetchingSearchBase'',
               Message = ''Error finding search base: some search error'',
               ObservedGeneration = 0\<rparr>, config))\<rparr>\<rparr>"

definition exampleUpstreamNoSecret :: Upstream where
  "exampleUpstreamNoSecret =
     exampleUpstream\<lparr>Spec := (Spec exampleUpstream)\<lparr>BindSecretName := ''missing-secret''\<rparr>\<rparr>"

definition exampleUpstreamBadCA :: Upstream where
  "exampleUpstreamBadCA =
     exampleUpstream\<lparr>Spec := (Spec exampleUpstream)
       \<lparr>TLSSpec := Some \<lparr>CertificateAuthorityData = ''!!!!''\<rparr>\<rparr>\<rparr>"

definition exampleEnvLookupBroken :: Collaborators where
  "exampleEnvLookupBroken =
     exampleEnv\<lparr>SecretsGet := (\<lambda>namespace name.
       Inl (UnexpectedError ''etcdserver: request timed out''))\<rparr>"

definition exampleEnvWrongType :: Collaborators where
  "exampleEnvWrongType =
     exampleEnv\<lparr>SecretsGet := (\<lambda>namespace name.
       Inr \<lparr>Type_secret = ''some-other-type'', ResourceVersion = ''4242'',
            Data = [''username'' \<mapsto> ''cn=admin'', ''password'' \<mapsto> ''hunter2'']\<rparr>)\<rparr>"

definition exampleEnvNoKeys :: Collaborators where
  "exampleEnvNoKeys =
     exampleEnv\<lparr>SecretsGet := (\<lambda>namespace name.
       Inr \<lparr>Type_secret = SecretTypeBasicAuth, ResourceVersion = ''4242'',
            Data = [''username'' \<mapsto> ''cn=admin'']\<rparr>)\<rparr>"

section \<open>The settings cache\<close>

lemma run_ops_snoc: "run_ops (ops @ [x]) = apply_op (run_ops ops) x"
  by (simp add: run_ops_def)

lemma most_recently_stored_snoc_Set:
  "most_recently_stored n (ops @ [SetOp m v]) =
     (if m = n then Some v else most_recently_stored n ops)"
  by (induction n ops rule: most_recently_stored.induct) (auto split: option.splits)

lemma most_recently_stored_snoc_Get:
  "most_recently_stored n (ops @ [GetOp m rv g]) = most_recently_stored n ops"
  by (induction n ops rule: most_recently_stored.induct) (auto split: option.splits)

lemma cache_holds_most_recent:
  "ValidatedSettingsByName (run_ops ops) n = most_recently_stored n ops"
proof (induction ops rule: rev_induct)
  case Nil
  show ?case by (simp add: run_ops_def NewValidatedSettingsCache_def)
next
  case (snoc x ops)
  show ?case
  proof (cases x)
    case (SetOp m v)
    with snoc show ?thesis
      by (simp add: run_ops_snoc Set_cache_def most_recently_stored_snoc_Set)
  next
    case (GetOp m rv g)
    with snoc show ?thesis
      by (simp add: run_ops_snoc most_recently_stored_snoc_Get)
  qed
qed

text \<open>
  C3. After any sequence of Set and Get operations on a new cache, Get of a name, secret
  version and generation returns the entry most recently stored under that name and true
  exactly when that entry exists and carries this secret version and this generation;
  when the name was never stored, or either field differs, it returns the zero
  ValidatedSettings and false.
\<close>

theorem Get_exact_match:
  "Get (run_ops ops) n rv g =
     (case most_recently_stored n ops of
        Some v \<Rightarrow>
          if BindSecretResourceVersion v = rv \<and> IDPSpecGeneration v = g
          then (v, True) else (zeroValidatedSettings, False)
      | None \<Rightarrow> (zeroValidatedSettings, False))
   \<and> (snd (Get (run_ops ops) n rv g) \<longleftrightarrow>
        (\<exists>v. most_recently_stored n ops = Some v
             \<and> BindSecretResourceVersion v = rv \<and> IDPSpecGeneration v = g))"
  by (auto simp: Get_def cache_holds_most_recent split: option.splits)

section \<open>The publication decision\<close>

lemma fatalLoop_total:
  "list_all (\<lambda>g. condition g \<noteq> None) gs \<Longrightarrow>
   fatalLoop gs = Inr (list_ex (\<lambda>g. isFatal g \<and> notTrue g) gs)"
  by (induction gs) (auto simp: notTrue_def)

lemma warningLoop_total:
  "list_all (\<lambda>g. condition g \<noteq> None) gs \<Longrightarrow>
   warningLoop gs = Inr (list_ex (\<lambda>g. \<not> isFatal g \<and> notTrue g) gs)"
  by (induction gs) (auto simp: notTrue_def)

text \<open>
  C1, as the code has it. For every list of gradated conditions none of which is nil, and
  every configuration: when some fatal condition has a status other than
  \<open>ConditionTrue\<close>, EvaluateConditions returns no provider and true; otherwise, when some
  condition that is not fatal has a status other than \<open>ConditionTrue\<close>, it returns a
  provider built from the configuration and true; otherwise, all conditions being true, it
  returns a provider built from the configuration and false.
\<close>

theorem EvaluateConditions_tiers:
  assumes "list_all (\<lambda>g. condition g \<noteq> None) gs"
  shows "EvaluateConditions \<lparr>gradatedConditions = gs\<rparr> config =
     Inr (if list_ex (\<lambda>g. isFatal g \<and> notTrue g) gs then (None, True)
          else if list_ex (\<lambda>g. \<not> isFatal g \<and> notTrue g) gs then (Some (New config), True)
          else (Some (New config), False))"
  using assms by (simp add: EvaluateConditions_def fatalLoop_total warningLoop_total)

theorem EvaluateConditions_tiers_witness:
  "list_all (\<lambda>g. condition g \<noteq> None)
     [\<lparr>condition = Some (exampleCondition typeBindSecretValid ConditionTrue), isFatal = True\<rparr>,
      \<lparr>condition = Some (exampleCondition typeLDAPConnectionValid ConditionFalse), isFatal = False\<rparr>]
   \<and> EvaluateConditions
     \<lparr>gradatedConditions =
        [\<lparr>condition = Some (exampleCondition typeBindSecretValid ConditionTrue), isFatal = True\<rparr>,
         \<lparr>condition = Some (exampleCondition typeLDAPConnectionValid ConditionFalse), isFatal = False\<rparr>]\<rparr>
     exampleConfig = Inr (Some (New exampleConfig), True)"
  using EvaluateConditions_tiers [of
        "[\<lparr>condition = Some (exampleCondition typeBindSecretValid ConditionTrue), isFatal = True\<rparr>,
         \<lparr>condition = Some (exampleCondition typeLDAPConnectionValid ConditionFalse), isFatal = False\<rparr>]" exampleConfig]
  by (simp add: notTrue_def exampleCondition_def ConditionTrue_def ConditionFalse_def)

text \<open>
  C1, as it is written, reads "false" where the code tests "not true". A fatal condition
  of status Unknown beside a false condition that is not fatal is tier (b) of the claim, and
  the code withholds the provider. A nil condition is dereferenced: the function panics.
\<close>

theorem EvaluateConditions_claim_counterexample:
  "EvaluateConditions
     \<lparr>gradatedConditions =
        [\<lparr>condition = Some (exampleCondition TypeSearchBaseFound ''Unknown''), isFatal = True\<rparr>,
         \<lparr>condition = Some (exampleCondition typeLDAPConnectionValid ConditionFalse), isFatal = False\<rparr>]\<rparr>
     exampleConfig = Inr (None, True)
   \<and> claimed_EvaluateConditions
        [\<lparr>condition = Some (exampleCondition TypeSearchBaseFound ''Unknown''), isFatal = True\<rparr>,
         \<lparr>condition = Some (exampleCondition typeLDAPConnectionValid ConditionFalse), isFatal = False\<rparr>]
        exampleConfig = (Some (New exampleConfig), True)
   \<and> EvaluateConditions
        \<lparr>gradatedConditions = [\<lparr>condition = None, isFatal = False\<rparr>]\<rparr> exampleConfig
      = Inl NilPointerDereference"
  by (simp add: EvaluateConditions_def claimed_EvaluateConditions_def isFalse_def
      exampleCondition_def ConditionTrue_def ConditionFalse_def)

text \<open>
  C10. For the empty list of gradated conditions EvaluateConditions returns a provider
  built from the given configuration, and false for the retry.
\<close>

theorem EvaluateConditions_empty:
  "EvaluateConditions \<lparr>gradatedConditions = []\<rparr> config = Inr (Some (New config), False)"
  by (simp add: EvaluateConditions_def)

section \<open>TLS configuration\<close>

lemma message_ends_with: "m = p @ e \<Longrightarrow> sublist e m"
  by simp

text \<open>
  C9. ValidateTLSConfig: a nil TLS spec gives a true condition with the message
  "no TLS configuration provided" and the configuration as it was; a spec with empty CA
  data gives a true condition with the message "loaded TLS configuration" and the
  configuration as it was; CA data that does not decode gives a false condition of reason
  InvalidTLSConfig whose message holds the decoder's error; decoded data with no
  certificate gives a false condition of reason InvalidTLSConfig whose message holds
  "no certificates found"; otherwise the CABundle of the configuration is the decoded
  data and the condition is true with the message "loaded TLS configuration".
\<close>

theorem ValidateTLSConfig_cases:
  "ValidateTLSConfig env None config =
     (\<lparr>Type = typeTLSConfigurationValid, Status = ConditionTrue, Reason = ReasonSuccess,
       Message = ''no TLS configuration provided'', ObservedGeneration = 0\<rparr>, config)
   \<and> (CertificateAuthorityData spec = [] \<longrightarrow>
        ValidateTLSConfig env (Some spec) config =
          (\<lparr>Type = typeTLSConfigurationValid, Status = ConditionTrue, Reason = ReasonSuccess,
            Message = ''loaded TLS configuration'', ObservedGeneration = 0\<rparr>, config))
   \<and> (CertificateAuthorityData spec \<noteq> []
        \<and> DecodeString env (CertificateAuthorityData spec) = Inl err \<longrightarrow>
        ValidateTLSConfig env (Some spec) config =
          (\<lparr>Type = typeTLSConfigurationValid, Status = ConditionFalse,
            Reason = ''InvalidTLSConfig'',
            Message = ''certificateAuthorityData is invalid: '' @ err,
            ObservedGeneration = 0\<rparr>, config)
        \<and> sublist err (Message (fst (ValidateTLSConfig env (Some spec) config))))
   \<and> (CertificateAuthorityData spec \<noteq> []
        \<and> DecodeString env (CertificateAuthorityData spec) = Inr bundle
        \<and> \<not> AppendCertsFromPEM env bundle \<longrightarrow>
        ValidateTLSConfig env (Some spec) config =
          (\<lparr>Type = typeTLSConfigurationValid, Status = ConditionFalse,
            Reason = ''InvalidTLSConfig'',
            Message = ''certificateAuthorityData is invalid: no certificates found'',
            ObservedGeneration = 0\<rparr>, config)
        \<and> sublist ''no certificates found''
             (Message (fst (ValidateTLSConfig env (Some spec) config))))
   \<and> (CertificateAuthorityData spec \<noteq> []
        \<and> DecodeString env (CertificateAuthorityData spec) = Inr bundle
        \<and> AppendCertsFromPEM env bundle \<longrightarrow>
        ValidateTLSConfig env (Some spec) config =
          (\<lparr>Type = typeTLSConfigurationValid, Status = ConditionTrue, Reason = ReasonSuccess,
            Message = ''loaded TLS configuration'', ObservedGeneration = 0\<rparr>,
           config\<lparr>CABundle := bundle\<rparr>))"
proof -
  have c1: "ValidateTLSConfig env None config =
     (\<lparr>Type = typeTLSConfigurationValid, Status = ConditionTrue, Reason = ReasonSuccess,
       Message = ''no TLS configuration provided'', ObservedGeneration = 0\<rparr>, config)"
    by (simp add: ValidateTLSConfig_def validTLSCondition_def noTLSConfigurationMessage_def)
  have c2: "CertificateAuthorityData spec = [] \<longrightarrow>
        ValidateTLSConfig env (Some spec) config =
          (\<lparr>Type = typeTLSConfigurationValid, Status = ConditionTrue, Reason = ReasonSuccess,
            Message = ''loaded TLS configuration'', ObservedGeneration = 0\<rparr>, config)"
    by (simp add: ValidateTLSConfig_def validTLSCondition_def loadedTLSConfigurationMessage_def)
  have c3: "CertificateAuthorityData spec \<noteq> []
        \<and> DecodeString env (CertificateAuthorityData spec) = Inl err \<longrightarrow>
        ValidateTLSConfig env (Some spec) config =
          (\<lparr>Type = typeTLSConfigurationValid, Status = ConditionFalse,
            Reason = ''InvalidTLSConfig'',
            Message = ''certificateAuthorityData is invalid: '' @ err,
            ObservedGeneration = 0\<rparr>, config)
        \<and> sublist err (Message (fst (ValidateTLSConfig env (Some spec) config)))"
    by (auto simp: ValidateTLSConfig_def invalidTLSCondition_def ReasonInvalidTLSConfig_def
        intro!: message_ends_with [where p = "''certificateAuthorityData is invalid: ''"])
  have c4: "CertificateAuthorityData spec \<noteq> []
        \<and> DecodeString env (CertificateAuthorityData spec) = Inr bundle
        \<and> \<not> AppendCertsFromPEM env bundle \<longrightarrow>
        ValidateTLSConfig env (Some spec) config =
          (\<lparr>Type = typeTLSConfigurationValid, Status = ConditionFalse,
            Reason = ''InvalidTLSConfig'',
            Message = ''certificateAuthorityData is invalid: no certificates found'',
            ObservedGeneration = 0\<rparr>, config)
        \<and> sublist ''no certificates found''
             (Message (fst (ValidateTLSConfig env (Some spec) config)))"
    by (auto simp: ValidateTLSConfig_def invalidTLSCondition_def ReasonInvalidTLSConfig_def
        ErrNoCertificates_def
        intro!: message_ends_with [where p = "''certificateAuthorityData is invalid: ''"])
  have c5: "CertificateAuthorityData spec \<noteq> []
        \<and> DecodeString env (CertificateAuthorityData spec) = Inr bundle
        \<and> AppendCertsFromPEM env bundle \<longrightarrow>
        ValidateTLSConfig env (Some spec) config =
          (\<lparr>Type = typeTLSConfigurationValid, Status = ConditionTrue, Reason = ReasonSuccess,
            Message = ''loaded TLS configuration'', ObservedGeneration = 0\<rparr>,
           config\<lparr>CABundle := bundle\<rparr>)"
    by (simp add: ValidateTLSConfig_def validTLSCondition_def loadedTLSConfigurationMessage_def)
  from c1 c2 c3 c4 c5 show ?thesis by blast
qed

theorem ValidateTLSConfig_cases_witness:
  "ValidateTLSConfig exampleEnv (Some \<lparr>CertificateAuthorityData = []\<rparr>) exampleConfig =
     (\<lparr>Type = typeTLSConfigurationValid, Status = ConditionTrue, Reason = ReasonSuccess,
       Message = ''loaded TLS configuration'', ObservedGeneration = 0\<rparr>, exampleConfig)
   \<and> DecodeString exampleEnv ''!!!!'' = Inl ''illegal base64 data at input byte 4''
   \<and> Message (fst (ValidateTLSConfig exampleEnv (Some \<lparr>CertificateAuthorityData = ''!!!!''\<rparr>)
        exampleConfig))
      = ''certificateAuthorityData is invalid: illegal base64 data at input byte 4''
   \<and> DecodeString exampleEnv ''Zm9v'' = Inr ''foo''
   \<and> \<not> AppendCertsFromPEM exampleEnv ''foo''
   \<and> Status (fst (ValidateTLSConfig exampleEnv (Some \<lparr>CertificateAuthorityData = ''Zm9v''\<rparr>)
        exampleConfig)) = ConditionFalse
   \<and> DecodeString exampleEnv ''Q0VSVA=='' = Inr ''CERT''
   \<and> AppendCertsFromPEM exampleEnv ''CERT''
   \<and> CABundle (snd (ValidateTLSConfig exampleEnv (Some \<lparr>CertificateAuthorityData = ''Q0VSVA==''\<rparr>)
        exampleConfig)) = ''CERT''"
  using ValidateTLSConfig_cases [of exampleEnv exampleConfig "\<lparr>CertificateAuthorityData = []\<rparr>"]
    ValidateTLSConfig_cases [of exampleEnv exampleConfig "\<lparr>CertificateAuthorityData = ''!!!!''\<rparr>"
      "''illegal base64 data at input byte 4''"]
    ValidateTLSConfig_cases [of exampleEnv exampleConfig "\<lparr>CertificateAuthorityData = ''Zm9v''\<rparr>"
      _ "''foo''"]
    ValidateTLSConfig_cases [of exampleEnv exampleConfig "\<lparr>CertificateAuthorityData = ''Q0VSVA==''\<rparr>"
      _ "''CERT''"]
  by (simp add: exampleEnv_def)

section \<open>The connection probe\<close>

lemma TLS_neq_StartTLS: "TLS \<noteq> StartTLS"
  by (simp add: TLS_def StartTLS_def)

lemma connectionCondition_None:
  "Type (connectionCondition None n config v) = typeLDAPConnectionValid"
  "Status (connectionCondition None n config v) = ConditionTrue"
  by (simp_all add: connectionCondition_def)

lemma connectionCondition_Some:
  "Type (connectionCondition (Some e) n config v) = typeLDAPConnectionValid"
  "Status (connectionCondition (Some e) n config v) = ConditionFalse"
  "Reason (connectionCondition (Some e) n config v) = reasonLDAPConnectionError"
  "Message (connectionCondition (Some e) n config v) =
     (''could not successfully connect to '' @ dquote @ Host config @ dquote
      @ '' and bind as user '' @ dquote @ BindUsername config @ dquote @ '': '') @ e"
  by (simp_all add: connectionCondition_def)

lemma TestConnection_TLS_ok:
  "ProviderTestConnection env (config\<lparr>ConnectionProtocol := TLS\<rparr>) = None \<Longrightarrow>
   TestConnection env n config v log =
     (connectionCondition None n (config\<lparr>ConnectionProtocol := TLS\<rparr>) v,
      config\<lparr>ConnectionProtocol := TLS\<rparr>,
      log @ [ConnectAndBind (config\<lparr>ConnectionProtocol := TLS\<rparr>)])"
  by (simp add: TestConnection_def Let_def)

lemma TestConnection_StartTLS_ok:
  "ProviderTestConnection env (config\<lparr>ConnectionProtocol := TLS\<rparr>) = Some e \<Longrightarrow>
   ProviderTestConnection env (config\<lparr>ConnectionProtocol := StartTLS\<rparr>) = None \<Longrightarrow>
   TestConnection env n config v log =
     (connectionCondition None n (config\<lparr>ConnectionProtocol := StartTLS\<rparr>) v,
      config\<lparr>ConnectionProtocol := StartTLS\<rparr>,
      log @ [ConnectAndBind (config\<lparr>ConnectionProtocol := TLS\<rparr>),
             ConnectAndBind (config\<lparr>ConnectionProtocol := StartTLS\<rparr>)])"
  by (simp add: TestConnection_def Let_def)

lemma TestConnection_both_fail:
  "ProviderTestConnection env (config\<lparr>ConnectionProtocol := TLS\<rparr>) = Some e \<Longrightarrow>
   ProviderTestConnection env (config\<lparr>ConnectionProtocol := StartTLS\<rparr>) = Some e2 \<Longrightarrow>
   TestConnection env n config v log =
     (connectionCondition (Some e) n (config\<lparr>ConnectionProtocol := TLS\<rparr>) v,
      config\<lparr>ConnectionProtocol := TLS\<rparr>,
      log @ [ConnectAndBind (config\<lparr>ConnectionProtocol := TLS\<rparr>),
             ConnectAndBind (config\<lparr>ConnectionProtocol := StartTLS\<rparr>)])"
  by (simp add: TestConnection_def Let_def)



text \<open>
  C2. TestConnection, for every configuration. When the dial and bind over TLS succeeds,
  that is the only attempt made, the protocol of the configuration is TLS and the
  condition is true. When it fails and the attempt over StartTLS succeeds, the protocol is
  StartTLS on return and the LDAPConnectionValid condition is true. When both fail, the
  protocol is TLS again, not StartTLS, and the condition is false with a message that
  holds the error text of the attempt over TLS.
\<close>

theorem TestConnection_fallback:
  "(let tlsConfig = config\<lparr>ConnectionProtocol := TLS\<rparr>;
        startTLSConfig = config\<lparr>ConnectionProtocol := StartTLS\<rparr>;
        r = TestConnection env n config v log;
        c = fst r; config' = fst (snd r); log' = snd (snd r)
    in (ProviderTestConnection env tlsConfig = None \<longrightarrow>
          log' = log @ [ConnectAndBind tlsConfig]
          \<and> config' = tlsConfig \<and> ConnectionProtocol config' = TLS
          \<and> Type c = typeLDAPConnectionValid \<and> Status c = ConditionTrue)
     \<and> (ProviderTestConnection env tlsConfig = Some e
          \<and> ProviderTestConnection env startTLSConfig = None \<longrightarrow>
          log' = log @ [ConnectAndBind tlsConfig, ConnectAndBind startTLSConfig]
          \<and> config' = startTLSConfig \<and> ConnectionProtocol config' = StartTLS
          \<and> Type c = typeLDAPConnectionValid \<and> Status c = ConditionTrue)
     \<and> (ProviderTestConnection env tlsConfig = Some e
          \<and> ProviderTestConnection env startTLSConfig = Some e2 \<longrightarrow>
          log' = log @ [ConnectAndBind tlsConfig, ConnectAndBind startTLSConfig]
          \<and> config' = tlsConfig \<and> ConnectionProtocol config' = TLS
          \<and> ConnectionProtocol config' \<noteq> StartTLS
          \<and> Type c = typeLDAPConnectionValid \<and> Status c = ConditionFalse
          \<and> Reason c = ''LDAPConnectionError''
          \<and> sublist e (Message c)))"
proof -
  let ?tls = "config\<lparr>ConnectionProtocol := TLS\<rparr>"
  let ?start = "config\<lparr>ConnectionProtocol := StartTLS\<rparr>"
  let ?r = "TestConnection env n config v log"
  have a: "ProviderTestConnection env ?tls = None \<longrightarrow>
          snd (snd ?r) = log @ [ConnectAndBind ?tls]
          \<and> fst (snd ?r) = ?tls \<and> ConnectionProtocol (fst (snd ?r)) = TLS
          \<and> Type (fst ?r) = typeLDAPConnectionValid \<and> Status (fst ?r) = ConditionTrue"
    by (simp add: TestConnection_TLS_ok connectionCondition_None)
  have b: "ProviderTestConnection env ?tls = Some e
          \<and> ProviderTestConnection env ?start = None \<longrightarrow>
          snd (snd ?r) = log @ [ConnectAndBind ?tls, ConnectAndBind ?start]
          \<and> fst (snd ?r) = ?start \<and> ConnectionProtocol (fst (snd ?r)) = StartTLS
          \<and> Type (fst ?r) = typeLDAPConnectionValid \<and> Status (fst ?r) = ConditionTrue"
    by (simp add: TestConnection_StartTLS_ok connectionCondition_None)
  have c: "ProviderTestConnection env ?tls = Some e
          \<and> ProviderTestConnection env ?start = Some e2 \<longrightarrow>
          snd (snd ?r) = log @ [ConnectAndBind ?tls, ConnectAndBind ?start]
          \<and> fst (snd ?r) = ?tls \<and> ConnectionProtocol (fst (snd ?r)) = TLS
          \<and> ConnectionProtocol (fst (snd ?r)) \<noteq> StartTLS
          \<and> Type (fst ?r) = typeLDAPConnectionValid \<and> Status (fst ?r) = ConditionFalse
          \<and> Reason (fst ?r) = ''LDAPConnectionError''
          \<and> sublist e (Message (fst ?r))"
  proof (intro impI, elim conjE)
    assume f: "ProviderTestConnection env ?tls = Some e"
      "ProviderTestConnection env ?start = Some e2"
    have r: "?r = (connectionCondition (Some e) n ?tls v, ?tls,
        log @ [ConnectAndBind ?tls, ConnectAndBind ?start])"
      using f by (rule TestConnection_both_fail)
    have m: "sublist e (Message (connectionCondition (Some e) n ?tls v))"
      by (rule message_ends_with) (rule connectionCondition_Some(4))
    show "snd (snd ?r) = log @ [ConnectAndBind ?tls, ConnectAndBind ?start]
          \<and> fst (snd ?r) = ?tls \<and> ConnectionProtocol (fst (snd ?r)) = TLS
          \<and> ConnectionProtocol (fst (snd ?r)) \<noteq> StartTLS
          \<and> Type (fst ?r) = typeLDAPConnectionValid \<and> Status (fst ?r) = ConditionFalse
          \<and> Reason (fst ?r) = ''LDAPConnectionError''
          \<and> sublist e (Message (fst ?r))"
      using m by (simp add: r connectionCondition_Some(1,2,3) TLS_neq_StartTLS
          reasonLDAPConnectionError_def)
  qed
  show ?thesis unfolding Let_def using a b c by blast
qed

theorem TestConnection_fallback_witness:
  "ProviderTestConnection exampleEnvTLS (exampleConfig\<lparr>ConnectionProtocol := TLS\<rparr>) = None
   \<and> snd (snd (TestConnection exampleEnvTLS ''bind-secret'' exampleConfig ''4242'' []))
       = [ConnectAndBind (exampleConfig\<lparr>ConnectionProtocol := TLS\<rparr>)]
   \<and> Status (fst (TestConnection exampleEnvTLS ''bind-secret'' exampleConfig ''4242'' []))
       = ConditionTrue
   \<and> ProviderTestConnection exampleEnv (exampleConfig\<lparr>ConnectionProtocol := TLS\<rparr>)
       = Some ''some dial error''
   \<and> ProviderTestConnection exampleEnv (exampleConfig\<lparr>ConnectionProtocol := StartTLS\<rparr>) = None
   \<and> ConnectionProtocol (fst (snd (TestConnection exampleEnv ''bind-secret'' exampleConfig ''4242'' [])))
       = StartTLS
   \<and> Status (fst (TestConnection exampleEnv ''bind-secret'' exampleConfig ''4242'' []))
       = ConditionTrue
   \<and> ProviderTestConnection exampleEnvDown (exampleConfig\<lparr>ConnectionProtocol := TLS\<rparr>)
       = Some ''some dial error''
   \<and> ProviderTestConnection exampleEnvDown (exampleConfig\<lparr>ConnectionProtocol := StartTLS\<rparr>)
       = Some ''StartTLS is not supported''
   \<and> ConnectionProtocol (fst (snd (TestConnection exampleEnvDown ''bind-secret'' exampleConfig ''4242'' [])))
       = TLS
   \<and> Status (fst (TestConnection exampleEnvDown ''bind-secret'' exampleConfig ''4242'' []))
       = ConditionFalse
   \<and> sublist ''some dial error''
        (Message (fst (TestConnection exampleEnvDown ''bind-secret'' exampleConfig ''4242'' [])))"
  using TestConnection_fallback [where env = exampleEnvTLS and config = exampleConfig
      and n = "''bind-secret''" and v = "''4242''" and log = "[]"]
    TestConnection_fallback [where env = exampleEnv and config = exampleConfig
      and n = "''bind-secret''" and v = "''4242''" and log = "[]" and e = "''some dial error''"]
    TestConnection_fallback [where env = exampleEnvDown and config = exampleConfig
      and n = "''bind-secret''" and v = "''4242''" and log = "[]" and e = "''some dial error''"
      and ?e2.0 = "''StartTLS is not supported''"]
  by (simp add: Let_def exampleEnvTLS_def exampleEnvDown_def exampleEnv_def TLS_def StartTLS_def)

section \<open>The cache-aware connectivity step\<close>

lemma DeepCopy_same: "DeepCopy c = c"
  by (cases c) (simp_all add: DeepCopy_def)

lemma connectivity_hit:
  assumes "Get cache (Name_idp upstream) version (Generation upstream) = (vs, True)"
    and "UserSearchBase vs \<noteq> []" and "GroupSearchBase vs \<noteq> []"
  shows "validateAndSetLDAPServerConnectivityAndSearchBase env cache upstream config version log =
     (DeepCopy (ConnectionValidCondition vs), DeepCopy (SearchBaseFoundCondition vs), cache,
      config\<lparr>ConnectionProtocol := LDAPConnectionProtocol vs,
             UserSearch := (UserSearch config)\<lparr>Base_user := UserSearchBase vs\<rparr>,
             GroupSearch := (GroupSearch config)\<lparr>Base_group := GroupSearchBase vs\<rparr>\<rparr>,
      log)"
  using assms by (simp add: validateAndSetLDAPServerConnectivityAndSearchBase_def Let_def)

lemma connectivity_probe:
  assumes "Get cache (Name_idp upstream) version (Generation upstream) = (vs, found)"
    and "\<not> (found \<and> UserSearchBase vs \<noteq> [] \<and> GroupSearchBase vs \<noteq> [])"
    and "TestConnection env (BindSecretName (Spec upstream)) config version log = (c, config1, log1)"
    and "DetectAndSetSearchBase (Spec upstream) config1 = (sb, config2)"
  shows "validateAndSetLDAPServerConnectivityAndSearchBase env cache upstream config version log =
     (Some c, sb,
      (if Status c = ConditionTrue
          \<and> (case sb of None \<Rightarrow> True | Some s \<Rightarrow> Status s = ConditionTrue)
       then Set_cache cache (Name_idp upstream)
              \<lparr>IDPSpecGeneration = Generation upstream,
               BindSecretResourceVersion = version,
               LDAPConnectionProtocol = ConnectionProtocol config2,
               UserSearchBase = Base_user (UserSearch config2),
               GroupSearchBase = Base_group (GroupSearch config2),
               ConnectionValidCondition = Some c,
               SearchBaseFoundCondition = sb\<rparr>
       else cache),
      config2, log1 @ [DetectSearchBase config1])"
  using assms
  by (auto simp: validateAndSetLDAPServerConnectivityAndSearchBase_def Let_def DeepCopy_same)

lemma TestConnection_log:
  "prefix (log @ [ConnectAndBind (config\<lparr>ConnectionProtocol := TLS\<rparr>)])
     (snd (snd (TestConnection env n config v log)))"
  by (simp add: TestConnection_def Let_def split: option.splits)

lemma TestConnection_Type:
  "Type (fst (TestConnection env n config v log)) = typeLDAPConnectionValid"
  by (simp add: TestConnection_def Let_def connectionCondition_None connectionCondition_Some
      split: option.splits)

text \<open>
  C4. When the cache lookup hits and the cached user and group search bases are both
  non-empty, the cached protocol and both search bases are copied into the configuration,
  deep copies of the two cached conditions are returned, and the log of what was done to
  the server is unchanged: no probe, no search base detection. In every other case (a
  miss, or a hit with an empty user or group search base) the connection is probed,
  starting over TLS, and then the search base detection runs on the configuration the
  probe left, whatever the outcome of the probe.
\<close>

theorem connectivity_step_paths:
  "(let hit = Get cache (Name_idp upstream) version (Generation upstream);
        vs = fst hit;
        complete = (snd hit \<and> UserSearchBase vs \<noteq> [] \<and> GroupSearchBase vs \<noteq> []);
        r = validateAndSetLDAPServerConnectivityAndSearchBase env cache upstream config version log;
        probe = TestConnection env (BindSecretName (Spec upstream)) config version log;
        config1 = fst (snd probe);
        resolved = DetectAndSetSearchBase (Spec upstream) config1
    in (complete \<longrightarrow>
          r = (DeepCopy (ConnectionValidCondition vs), DeepCopy (SearchBaseFoundCondition vs),
               cache,
               config\<lparr>ConnectionProtocol := LDAPConnectionProtocol vs,
                      UserSearch := (UserSearch config)\<lparr>Base_user := UserSearchBase vs\<rparr>,
                      GroupSearch := (GroupSearch config)\<lparr>Base_group := GroupSearchBase vs\<rparr>\<rparr>,
               log)
          \<and> DeepCopy (ConnectionValidCondition vs) = ConnectionValidCondition vs
          \<and> DeepCopy (SearchBaseFoundCondition vs) = SearchBaseFoundCondition vs)
     \<and> (\<not> complete \<longrightarrow>
          fst r = Some (fst probe)
          \<and> fst (snd r) = fst resolved
          \<and> fst (snd (snd (snd r))) = snd resolved
          \<and> snd (snd (snd (snd r))) = snd (snd probe) @ [DetectSearchBase config1]
          \<and> prefix (log @ [ConnectAndBind (config\<lparr>ConnectionProtocol := TLS\<rparr>)])
               (snd (snd probe))))"
proof -
  obtain vs found where g: "Get cache (Name_idp upstream) version (Generation upstream) = (vs, found)"
    by (cases "Get cache (Name_idp upstream) version (Generation upstream)")
  obtain c config1 log1 where
    t: "TestConnection env (BindSecretName (Spec upstream)) config version log = (c, config1, log1)"
    by (cases "TestConnection env (BindSecretName (Spec upstream)) config version log")
  obtain sb config2 where d: "DetectAndSetSearchBase (Spec upstream) config1 = (sb, config2)"
    by (cases "DetectAndSetSearchBase (Spec upstream) config1")
  have p: "prefix (log @ [ConnectAndBind (config\<lparr>ConnectionProtocol := TLS\<rparr>)]) log1"
    using TestConnection_log [of log config env "BindSecretName (Spec upstream)" version]
    by (simp add: t)
  show ?thesis
  proof (cases "found \<and> UserSearchBase vs \<noteq> [] \<and> GroupSearchBase vs \<noteq> []")
    case True
    then have "Get cache (Name_idp upstream) version (Generation upstream) = (vs, True)"
      using g by simp
    from connectivity_hit [OF this] True show ?thesis
      by (simp add: g Let_def DeepCopy_same)
  next
    case False
    from connectivity_probe [OF g False t d] False p show ?thesis
      by (auto simp: g t d Let_def)
  qed
qed

theorem connectivity_step_paths_witness:
  "Get exampleCache ''idp1'' ''4242'' 1234 = (exampleSettings, True)
   \<and> validateAndSetLDAPServerConnectivityAndSearchBase exampleEnv exampleCache exampleUpstream
        exampleConfig ''4242'' []
      = (ConnectionValidCondition exampleSettings, None, exampleCache,
         exampleConfig\<lparr>ConnectionProtocol := StartTLS,
           UserSearch := (UserSearch exampleConfig)\<lparr>Base_user := ''ou=people,dc=example,dc=com''\<rparr>,
           GroupSearch := (GroupSearch exampleConfig)\<lparr>Base_group := ''ou=teams,dc=example,dc=com''\<rparr>\<rparr>,
         [])
   \<and> \<not> snd (Get exampleCache ''idp1'' ''4243'' 1234)
   \<and> snd (snd (snd (snd (validateAndSetLDAPServerConnectivityAndSearchBase exampleEnvDown
        exampleCache exampleUpstream exampleConfig ''4243'' []))))
      = [ConnectAndBind (exampleConfig\<lparr>ConnectionProtocol := TLS\<rparr>),
         ConnectAndBind (exampleConfig\<lparr>ConnectionProtocol := StartTLS\<rparr>),
         DetectSearchBase (exampleConfig\<lparr>ConnectionProtocol := TLS\<rparr>)]"
  using connectivity_step_paths [where env = exampleEnv and cache = exampleCache
      and upstream = exampleUpstream and config = exampleConfig and version = "''4242''"
      and log = "[]"]
    connectivity_step_paths [where env = exampleEnvDown and cache = exampleCache
      and upstream = exampleUpstream and config = exampleConfig and version = "''4243''"
      and log = "[]"]
  by (simp add: Let_def exampleCache_def exampleSettings_def exampleUpstream_def Get_def
      Set_cache_def NewValidatedSettingsCache_def DeepCopy_same TestConnection_def
      exampleEnvDown_def exampleEnv_def TLS_def StartTLS_def)

text \<open>
  C5. On the probing path, when the connection condition is true and the search base
  condition is nil or true, the cache is the old one with the entry of the upstream's
  name replaced by a new one, which carries the generation, the secret version, the final
  protocol and search bases of the configuration and deep copies of both conditions, and
  a Get of that name, version and generation hits it. On any other outcome the cache
  is the old one.
\<close>

theorem probing_path_cache_write:
  "(let hit = Get cache (Name_idp upstream) version (Generation upstream);
        vs = fst hit;
        complete = (snd hit \<and> UserSearchBase vs \<noteq> [] \<and> GroupSearchBase vs \<noteq> []);
        r = validateAndSetLDAPServerConnectivityAndSearchBase env cache upstream config version log;
        cache' = fst (snd (snd r));
        probe = TestConnection env (BindSecretName (Spec upstream)) config version log;
        c = fst probe;
        resolved = DetectAndSetSearchBase (Spec upstream) (fst (snd probe));
        sb = fst resolved;
        config2 = snd resolved;
        entry = \<lparr>IDPSpecGeneration = Generation upstream,
                 BindSecretResourceVersion = version,
                 LDAPConnectionProtocol = ConnectionProtocol config2,
                 UserSearchBase = Base_user (UserSearch config2),
                 GroupSearchBase = Base_group (GroupSearch config2),
                 ConnectionValidCondition = DeepCopy (Some c),
                 SearchBaseFoundCondition = DeepCopy sb\<rparr>
    in \<not> complete \<longrightarrow>
         (if Status c = ConditionTrue
             \<and> (case sb of None \<Rightarrow> True | Some s \<Rightarrow> Status s = ConditionTrue)
          then cache' = Set_cache cache (Name_idp upstream) entry
               \<and> ValidatedSettingsByName cache' = (ValidatedSettingsByName cache)(Name_idp upstream \<mapsto> entry)
               \<and> Get cache' (Name_idp upstream) version (Generation upstream) = (entry, True)
          else cache' = cache))"
proof -
  obtain vs found where g: "Get cache (Name_idp upstream) version (Generation upstream) = (vs, found)"
    by (cases "Get cache (Name_idp upstream) version (Generation upstream)")
  obtain c config1 log1 where
    t: "TestConnection env (BindSecretName (Spec upstream)) config version log = (c, config1, log1)"
    by (cases "TestConnection env (BindSecretName (Spec upstream)) config version log")
  obtain sb config2 where d: "DetectAndSetSearchBase (Spec upstream) config1 = (sb, config2)"
    by (cases "DetectAndSetSearchBase (Spec upstream) config1")
  show ?thesis
  proof (cases "found \<and> UserSearchBase vs \<noteq> [] \<and> GroupSearchBase vs \<noteq> []")
    case True
    then show ?thesis by (simp add: g Let_def)
  next
    case False
    from connectivity_probe [OF g False t d] show ?thesis
      by (simp add: g t d Let_def DeepCopy_same Set_cache_def Get_def)
  qed
qed

theorem probing_path_cache_write_witness:
  "\<not> snd (Get NewValidatedSettingsCache ''idp1'' ''4242'' 1234)
   \<and> Status (fst (TestConnection exampleEnv ''bind-secret'' exampleConfig ''4242'' []))
       = ConditionTrue
   \<and> Get (fst (snd (snd (validateAndSetLDAPServerConnectivityAndSearchBase exampleEnv
        NewValidatedSettingsCache exampleUpstream exampleConfig ''4242'' []))))
        ''idp1'' ''4242'' 1234
      = (\<lparr>IDPSpecGeneration = 1234, BindSecretResourceVersion = ''4242'',
          LDAPConnectionProtocol = StartTLS,
          UserSearchBase = ''ou=users,dc=example,dc=com'',
          GroupSearchBase = ''ou=groups,dc=example,dc=com'',
          ConnectionValidCondition =
            Some (fst (TestConnection exampleEnv ''bind-secret'' exampleConfig ''4242'' [])),
          SearchBaseFoundCondition = None\<rparr>, True)
   \<and> Status (fst (TestConnection exampleEnvDown ''bind-secret'' exampleConfig ''4242'' []))
       \<noteq> ConditionTrue
   \<and> fst (snd (snd (validateAndSetLDAPServerConnectivityAndSearchBase exampleEnvDown
        NewValidatedSettingsCache exampleUpstream exampleConfig ''4242'' [])))
      = NewValidatedSettingsCache
   \<and> fst (DetectAndSetSearchBase (Spec exampleUpstreamAD)
        (fst (snd (TestConnection exampleEnv ''bind-secret'' exampleConfig ''4242'' []))))
      = Some \<lparr>Type = TypeSearchBaseFound, Status = ConditionFalse,
               Reason = ''ErrorFetchingSearchBase'',
               Message = ''Error finding search base: some search error'',
               ObservedGeneration = 0\<rparr>
   \<and> fst (snd (snd (validateAndSetLDAPServerConnectivityAndSearchBase exampleEnv
        NewValidatedSettingsCache exampleUpstreamAD exampleConfig ''4242'' [])))
      = NewValidatedSettingsCache"
  using probing_path_cache_write [where env = exampleEnv and cache = NewValidatedSettingsCache
      and upstream = exampleUpstream and config = exampleConfig and version = "''4242''"
      and log = "[]"]
    probing_path_cache_write [where env = exampleEnvDown and cache = NewValidatedSettingsCache
      and upstream = exampleUpstream and config = exampleConfig and version = "''4242''"
      and log = "[]"]
    probing_path_cache_write [where env = exampleEnv and cache = NewValidatedSettingsCache
      and upstream = exampleUpstreamAD and config = exampleConfig and version = "''4242''"
      and log = "[]"]
  by (simp add: Let_def exampleUpstreamAD_def exampleUpstream_def Get_def Set_cache_def
      NewValidatedSettingsCache_def DeepCopy_same TestConnection_def connectionCondition_def
      exampleEnvDown_def exampleEnv_def exampleConfig_def TLS_def StartTLS_def
      ConditionTrue_def ConditionFalse_def)

lemma connectivity_fresh_condition:
  assumes "\<not> (snd (Get cache (Name_idp upstream) version (Generation upstream))
      \<and> UserSearchBase (fst (Get cache (Name_idp upstream) version (Generation upstream))) \<noteq> []
      \<and> GroupSearchBase (fst (Get cache (Name_idp upstream) version (Generation upstream))) \<noteq> [])"
  shows "fst (validateAndSetLDAPServerConnectivityAndSearchBase env cache upstream config version log)
    = Some (fst (TestConnection env (BindSecretName (Spec upstream)) config version log))"
proof -
  obtain vs found where g: "Get cache (Name_idp upstream) version (Generation upstream) = (vs, found)"
    by (cases "Get cache (Name_idp upstream) version (Generation upstream)")
  obtain c config1 log1 where
    t: "TestConnection env (BindSecretName (Spec upstream)) config version log = (c, config1, log1)"
    by (cases "TestConnection env (BindSecretName (Spec upstream)) config version log")
  obtain sb config2 where d: "DetectAndSetSearchBase (Spec upstream) config1 = (sb, config2)"
    by (cases "DetectAndSetSearchBase (Spec upstream) config1")
  from assms have n: "\<not> (found \<and> UserSearchBase vs \<noteq> [] \<and> GroupSearchBase vs \<noteq> [])"
    by (simp add: g)
  from connectivity_probe [OF g n t d] show ?thesis
    by (simp add: t)
qed

section \<open>ValidateGenericLDAP\<close>

lemma ValidateSecret_Type:
  "Type (fst (ValidateSecret env n ns config)) = typeBindSecretValid"
  by (simp add: ValidateSecret_def Let_def split: sum.splits)

lemma ValidateTLSConfig_Type:
  "Type (fst (ValidateTLSConfig env spec config)) = typeTLSConfigurationValid"
  by (simp add: ValidateTLSConfig_def validTLSCondition_def invalidTLSCondition_def
      split: option.splits sum.splits)

text \<open>
  C6. When the condition of the bind secret or the condition of the TLS configuration is
  not true, ValidateGenericLDAP leaves the log of what was done to the server and the
  cache unchanged (no probe, no search base detection), and its list of gradated
  conditions holds exactly the two conditions BindSecretValid and TLSConfigurationValid.
\<close>

theorem ValidateGenericLDAP_short_circuit:
  "(let secretResult = ValidateSecret env (BindSecretName (Spec upstream)) (Namespace upstream) config;
        secretValidCondition = fst secretResult;
        tlsResult = ValidateTLSConfig env (TLSSpec (Spec upstream)) (snd (snd secretResult));
        tlsValidCondition = fst tlsResult
    in Status secretValidCondition \<noteq> ConditionTrue \<or> Status tlsValidCondition \<noteq> ConditionTrue \<longrightarrow>
         ValidateGenericLDAP env upstream cache config log =
           (\<lparr>gradatedConditions =
               [\<lparr>condition = Some secretValidCondition, isFatal = True\<rparr>,
                \<lparr>condition = Some tlsValidCondition, isFatal = True\<rparr>]\<rparr>,
            cache, snd tlsResult, log)
         \<and> Conditions (fst (ValidateGenericLDAP env upstream cache config log)) =
             [Some secretValidCondition, Some tlsValidCondition]
         \<and> Type secretValidCondition = typeBindSecretValid
         \<and> Type tlsValidCondition = typeTLSConfigurationValid)"
  by (auto simp: ValidateGenericLDAP_def Let_def Append_def Conditions_def
      ValidateSecret_Type ValidateTLSConfig_Type split: prod.splits)

theorem ValidateGenericLDAP_short_circuit_witness:
  "Status (fst (ValidateSecret exampleEnv ''missing-secret'' ''pinniped'' exampleConfig))
     \<noteq> ConditionTrue
   \<and> map (\<lambda>c. map_option Type c)
        (Conditions (fst (ValidateGenericLDAP exampleEnv exampleUpstreamNoSecret
           NewValidatedSettingsCache exampleConfig [])))
      = [Some typeBindSecretValid, Some typeTLSConfigurationValid]
   \<and> snd (snd (snd (ValidateGenericLDAP exampleEnv exampleUpstreamNoSecret
        NewValidatedSettingsCache exampleConfig []))) = []
   \<and> Status (fst (ValidateTLSConfig exampleEnv (Some \<lparr>CertificateAuthorityData = ''!!!!''\<rparr>)
        (snd (snd (ValidateSecret exampleEnv ''bind-secret'' ''pinniped'' exampleConfig)))))
     \<noteq> ConditionTrue
   \<and> length (gradatedConditions (fst (ValidateGenericLDAP exampleEnv exampleUpstreamBadCA
        NewValidatedSettingsCache exampleConfig []))) = 2
   \<and> snd (snd (snd (ValidateGenericLDAP exampleEnv exampleUpstreamBadCA
        NewValidatedSettingsCache exampleConfig []))) = []"
  using ValidateGenericLDAP_short_circuit [where env = exampleEnv
      and upstream = exampleUpstreamNoSecret and cache = NewValidatedSettingsCache
      and config = exampleConfig and log = "[]"]
    ValidateGenericLDAP_short_circuit [where env = exampleEnv
      and upstream = exampleUpstreamBadCA and cache = NewValidatedSettingsCache
      and config = exampleConfig and log = "[]"]
  by (simp add: Let_def exampleUpstreamNoSecret_def exampleUpstreamBadCA_def
      exampleUpstream_def exampleEnv_def ValidateSecret_def ValidateTLSConfig_def
      Conditions_def validTLSCondition_def invalidTLSCondition_def
      ConditionTrue_def ConditionFalse_def)

lemma cachedConnectionsValid_New: "cachedConnectionsValid NewValidatedSettingsCache"
  by (simp add: cachedConnectionsValid_def NewValidatedSettingsCache_def)

lemma cachedConnectionsValid_Get:
  assumes "cachedConnectionsValid cache" and "Get cache n rv g = (vs, True)"
  shows "\<exists>c. ConnectionValidCondition vs = Some c
             \<and> Type c = typeLDAPConnectionValid \<and> Status c = ConditionTrue"
  using assms
  by (auto simp: cachedConnectionsValid_def Get_def split: option.splits if_splits)

lemma connectivity_step_Type:
  assumes "cachedConnectionsValid cache"
  shows "map_option Type
           (fst (validateAndSetLDAPServerConnectivityAndSearchBase env cache upstream config version log))
         = Some typeLDAPConnectionValid"
proof -
  obtain vs found where g: "Get cache (Name_idp upstream) version (Generation upstream) = (vs, found)"
    by (cases "Get cache (Name_idp upstream) version (Generation upstream)")
  show ?thesis
  proof (cases "found \<and> UserSearchBase vs \<noteq> [] \<and> GroupSearchBase vs \<noteq> []")
    case True
    then have h: "Get cache (Name_idp upstream) version (Generation upstream) = (vs, True)"
      using g by simp
    from cachedConnectionsValid_Get [OF assms h] connectivity_hit [OF h] True show ?thesis
      by (auto simp: DeepCopy_same)
  next
    case False
    then have "\<not> (snd (Get cache (Name_idp upstream) version (Generation upstream))
      \<and> UserSearchBase (fst (Get cache (Name_idp upstream) version (Generation upstream))) \<noteq> []
      \<and> GroupSearchBase (fst (Get cache (Name_idp upstream) version (Generation upstream))) \<noteq> [])"
      by (simp add: g)
    from connectivity_fresh_condition [OF this] show ?thesis
      by (simp add: TestConnection_Type)
  qed
qed

lemma connectivity_step_preserves:
  assumes "cachedConnectionsValid cache"
  shows "cachedConnectionsValid
           (fst (snd (snd (validateAndSetLDAPServerConnectivityAndSearchBase env cache upstream
              config version log))))"
proof -
  obtain vs found where g: "Get cache (Name_idp upstream) version (Generation upstream) = (vs, found)"
    by (cases "Get cache (Name_idp upstream) version (Generation upstream)")
  obtain c config1 log1 where
    t: "TestConnection env (BindSecretName (Spec upstream)) config version log = (c, config1, log1)"
    by (cases "TestConnection env (BindSecretName (Spec upstream)) config version log")
  obtain sb config2 where d: "DetectAndSetSearchBase (Spec upstream) config1 = (sb, config2)"
    by (cases "DetectAndSetSearchBase (Spec upstream) config1")
  have ty: "Type c = typeLDAPConnectionValid"
    using TestConnection_Type [of env "BindSecretName (Spec upstream)" config version log]
    by (simp add: t)
  show ?thesis
  proof (cases "found \<and> UserSearchBase vs \<noteq> [] \<and> GroupSearchBase vs \<noteq> []")
    case True
    then have h: "Get cache (Name_idp upstream) version (Generation upstream) = (vs, True)"
      using g by simp
    from connectivity_hit [OF h] True assms show ?thesis by simp
  next
    case False
    from connectivity_probe [OF g False t d] assms ty show ?thesis
      by (auto simp: cachedConnectionsValid_def Set_cache_def)
  qed
qed

lemma ValidateGenericLDAP_preserves:
  assumes "cachedConnectionsValid cache"
  shows "cachedConnectionsValid (fst (snd (ValidateGenericLDAP env upstream cache config log)))"
  using assms
  by (simp add: ValidateGenericLDAP_def Let_def case_prod_beta connectivity_step_preserves)

text \<open>
  C8. The gradated conditions of ValidateGenericLDAP are, in this order: the
  BindSecretValid condition, fatal; the TLSConfigurationValid condition, fatal; then, only
  when both are true, the connection condition of the connectivity step, not fatal, and
  its search base condition, fatal, when that is not nil. The connection condition has the
  type LDAPConnectionValid when it comes from a fresh probe, and also when it is copied
  from a cache that holds what the code itself has stored.
\<close>

theorem ValidateGenericLDAP_order:
  "(let secretResult = ValidateSecret env (BindSecretName (Spec upstream)) (Namespace upstream) config;
        secretValidCondition = fst secretResult;
        currentSecretVersion = fst (snd secretResult);
        tlsResult = ValidateTLSConfig env (TLSSpec (Spec upstream)) (snd (snd secretResult));
        tlsValidCondition = fst tlsResult;
        step = validateAndSetLDAPServerConnectivityAndSearchBase env cache upstream
                 (snd tlsResult) currentSecretVersion log;
        ldapConnectionValidCondition = fst step;
        searchBaseFoundCondition = fst (snd step);
        hit = Get cache (Name_idp upstream) currentSecretVersion (Generation upstream)
    in gradatedConditions (fst (ValidateGenericLDAP env upstream cache config log)) =
         [\<lparr>condition = Some secretValidCondition, isFatal = True\<rparr>,
          \<lparr>condition = Some tlsValidCondition, isFatal = True\<rparr>]
         @ (if Status secretValidCondition = ConditionTrue
               \<and> Status tlsValidCondition = ConditionTrue
            then \<lparr>condition = ldapConnectionValidCondition, isFatal = False\<rparr>
                 # (case searchBaseFoundCondition of
                      None \<Rightarrow> []
                    | Some c \<Rightarrow> [\<lparr>condition = Some c, isFatal = True\<rparr>])
            else [])
       \<and> Type secretValidCondition = typeBindSecretValid
       \<and> Type tlsValidCondition = typeTLSConfigurationValid
       \<and> (\<not> (snd hit \<and> UserSearchBase (fst hit) \<noteq> [] \<and> GroupSearchBase (fst hit) \<noteq> []) \<longrightarrow>
            map_option Type ldapConnectionValidCondition = Some typeLDAPConnectionValid)
       \<and> (cachedConnectionsValid cache \<longrightarrow>
            map_option Type ldapConnectionValidCondition = Some typeLDAPConnectionValid))"
proof -
  let ?sr = "ValidateSecret env (BindSecretName (Spec upstream)) (Namespace upstream) config"
  let ?tr = "ValidateTLSConfig env (TLSSpec (Spec upstream)) (snd (snd ?sr))"
  let ?v = "fst (snd ?sr)"
  let ?step = "validateAndSetLDAPServerConnectivityAndSearchBase env cache upstream
                 (snd ?tr) ?v log"
  let ?hit = "Get cache (Name_idp upstream) ?v (Generation upstream)"
  have shape: "gradatedConditions (fst (ValidateGenericLDAP env upstream cache config log)) =
         [\<lparr>condition = Some (fst ?sr), isFatal = True\<rparr>,
          \<lparr>condition = Some (fst ?tr), isFatal = True\<rparr>]
         @ (if Status (fst ?sr) = ConditionTrue \<and> Status (fst ?tr) = ConditionTrue
            then \<lparr>condition = fst ?step, isFatal = False\<rparr>
                 # (case fst (snd ?step) of
                      None \<Rightarrow> []
                    | Some c \<Rightarrow> [\<lparr>condition = Some c, isFatal = True\<rparr>])
            else [])"
    by (simp add: ValidateGenericLDAP_def Let_def Append_def split: prod.splits option.splits)
  have fresh: "\<not> (snd ?hit \<and> UserSearchBase (fst ?hit) \<noteq> [] \<and> GroupSearchBase (fst ?hit) \<noteq> []) \<longrightarrow>
      map_option Type (fst ?step) = Some typeLDAPConnectionValid"
    by (simp add: connectivity_fresh_condition TestConnection_Type)
  have cached: "cachedConnectionsValid cache \<longrightarrow>
      map_option Type (fst ?step) = Some typeLDAPConnectionValid"
    by (simp add: connectivity_step_Type)
  show ?thesis
    unfolding Let_def using shape fresh cached ValidateSecret_Type ValidateTLSConfig_Type
    by blast
qed

theorem ValidateGenericLDAP_order_witness:
  "\<not> snd (Get NewValidatedSettingsCache ''idp1'' ''4242'' 1234)
   \<and> map (\<lambda>g. (map_option Type (condition g), isFatal g))
        (gradatedConditions (fst (ValidateGenericLDAP exampleEnv exampleUpstream
           NewValidatedSettingsCache exampleConfig [])))
      = [(Some typeBindSecretValid, True), (Some typeTLSConfigurationValid, True),
         (Some typeLDAPConnectionValid, False)]
   \<and> map (\<lambda>g. (map_option Type (condition g), isFatal g))
        (gradatedConditions (fst (ValidateGenericLDAP exampleEnv exampleUpstreamAD
           NewValidatedSettingsCache exampleConfig [])))
      = [(Some typeBindSecretValid, True), (Some typeTLSConfigurationValid, True),
         (Some typeLDAPConnectionValid, False), (Some TypeSearchBaseFound, True)]
   \<and> cachedConnectionsValid exampleCache
   \<and> map (\<lambda>g. (map_option Type (condition g), isFatal g))
        (gradatedConditions (fst (ValidateGenericLDAP exampleEnv exampleUpstream
           exampleCache exampleConfig [])))
      = [(Some typeBindSecretValid, True), (Some typeTLSConfigurationValid, True),
         (Some typeLDAPConnectionValid, False)]"
proof -
  have wf: "cachedConnectionsValid exampleCache"
    by (auto simp: cachedConnectionsValid_def exampleCache_def exampleSettings_def
        exampleCondition_def Set_cache_def NewValidatedSettingsCache_def split: if_splits)
  have fresh: "\<not> snd (Get NewValidatedSettingsCache ''idp1'' ''4242'' 1234)
   \<and> map (\<lambda>g. (map_option Type (condition g), isFatal g))
        (gradatedConditions (fst (ValidateGenericLDAP exampleEnv exampleUpstream
           NewValidatedSettingsCache exampleConfig [])))
      = [(Some typeBindSecretValid, True), (Some typeTLSConfigurationValid, True),
         (Some typeLDAPConnectionValid, False)]
   \<and> map (\<lambda>g. (map_option Type (condition g), isFatal g))
        (gradatedConditions (fst (ValidateGenericLDAP exampleEnv exampleUpstreamAD
           NewValidatedSettingsCache exampleConfig [])))
      = [(Some typeBindSecretValid, True), (Some typeTLSConfigurationValid, True),
         (Some typeLDAPConnectionValid, False), (Some TypeSearchBaseFound, True)]"
    using ValidateGenericLDAP_order [where env = exampleEnv and upstream = exampleUpstream
        and cache = NewValidatedSettingsCache and config = exampleConfig and log = "[]"]
      ValidateGenericLDAP_order [where env = exampleEnv and upstream = exampleUpstreamAD
        and cache = NewValidatedSettingsCache and config = exampleConfig and log = "[]"]
    by (simp add: Let_def exampleUpstreamAD_def exampleUpstream_def exampleEnv_def
        ValidateSecret_def ValidateTLSConfig_def validTLSCondition_def dataString_def
        SecretTypeBasicAuth_def BasicAuthUsernameKey_def BasicAuthPasswordKey_def
        validateAndSetLDAPServerConnectivityAndSearchBase_def Get_def
        NewValidatedSettingsCache_def TestConnection_def connectionCondition_def
        cachedConnectionsValid_def TLS_def StartTLS_def ConditionTrue_def ConditionFalse_def)
  have cached: "map (\<lambda>g. (map_option Type (condition g), isFatal g))
        (gradatedConditions (fst (ValidateGenericLDAP exampleEnv exampleUpstream
           exampleCache exampleConfig [])))
      = [(Some typeBindSecretValid, True), (Some typeTLSConfigurationValid, True),
         (Some typeLDAPConnectionValid, False)]"
    using wf ValidateGenericLDAP_order [where env = exampleEnv and upstream = exampleUpstream
        and cache = exampleCache and config = exampleConfig and log = "[]"]
    by (simp add: Let_def exampleUpstream_def exampleEnv_def
        ValidateSecret_def ValidateTLSConfig_def validTLSCondition_def dataString_def
        SecretTypeBasicAuth_def BasicAuthUsernameKey_def BasicAuthPasswordKey_def
        validateAndSetLDAPServerConnectivityAndSearchBase_def Get_def DeepCopy_same
        exampleCache_def exampleSettings_def Set_cache_def NewValidatedSettingsCache_def
        ConditionTrue_def)
  from wf fresh cached show ?thesis by simp
qed

section \<open>Failures and conditions\<close>

text \<open>
  C7, as it is written, has unexpected failures of the secret lookup returned as plain
  errors. ValidateSecret has no error to return: a lookup that fails with a timeout gives
  the condition BindSecretValid, false, with the reason SecretNotFound and the text of the
  error as its message.
\<close>

theorem secret_lookup_error_counterexample:
  "SecretsGet exampleEnvLookupBroken ''pinniped'' ''bind-secret''
     = Inl (UnexpectedError ''etcdserver: request timed out'')
   \<and> claimed_ValidateSecret exampleEnvLookupBroken ''bind-secret'' ''pinniped'' exampleConfig
     = Inl ''etcdserver: request timed out''
   \<and> ValidateSecret exampleEnvLookupBroken ''bind-secret'' ''pinniped'' exampleConfig
     = (\<lparr>Type = ''BindSecretValid'', Status = ''False'', Reason = ''SecretNotFound'',
         Message = ''etcdserver: request timed out'', ObservedGeneration = 0\<rparr>,
        [], exampleConfig)"
  by (simp add: claimed_ValidateSecret_def ValidateSecret_def exampleEnvLookupBroken_def
      exampleEnv_def typeBindSecretValid_def ConditionFalse_def ReasonNotFound_def)

lemma ValidateSecret_lookup_failed:
  "SecretsGet env ns n = Inl err \<Longrightarrow>
   ValidateSecret env n ns config =
     (\<lparr>Type = typeBindSecretValid, Status = ConditionFalse, Reason = ReasonNotFound,
       Message = Error err, ObservedGeneration = 0\<rparr>, [], config)"
  by (simp add: ValidateSecret_def)

text \<open>
  C7, as the code has it. Every failure of a validation is a condition of status false,
  without exception: any error of the secret lookup, expected or not, is the condition
  BindSecretValid with the reason SecretNotFound and the error's text as message, which
  ValidateGenericLDAP returns as the first of its two conditions, leaving the server and
  the cache alone; a secret of the wrong type, a secret without user name or password, CA
  data that does not decode or holds no certificate, and a connection that fails over
  both protocols are conditions of status false with their own reasons.
\<close>

theorem failures_become_conditions:
  "(SecretsGet env ns n = Inl err \<longrightarrow>
      ValidateSecret env n ns config =
        (\<lparr>Type = typeBindSecretValid, Status = ConditionFalse, Reason = ''SecretNotFound'',
          Message = Error err, ObservedGeneration = 0\<rparr>, [], config))
   \<and> (SecretsGet env (Namespace upstream) (BindSecretName (Spec upstream)) = Inl err \<longrightarrow>
      (\<exists>tlsValidCondition config'.
         ValidateGenericLDAP env upstream cache config log =
           (\<lparr>gradatedConditions =
              [\<lparr>condition = Some \<lparr>Type = typeBindSecretValid, Status = ConditionFalse,
                                   Reason = ''SecretNotFound'', Message = Error err,
                                   ObservedGeneration = 0\<rparr>, isFatal = True\<rparr>,
               \<lparr>condition = Some tlsValidCondition, isFatal = True\<rparr>]\<rparr>,
            cache, config', log)))
   \<and> (SecretsGet env ns n = Inr secret \<and> Type_secret secret \<noteq> SecretTypeBasicAuth \<longrightarrow>
      Status (fst (ValidateSecret env n ns config)) = ConditionFalse
      \<and> Reason (fst (ValidateSecret env n ns config)) = ''SecretWrongType'')
   \<and> (SecretsGet env ns n = Inr secret \<and> Type_secret secret = SecretTypeBasicAuth
      \<and> (dataString secret ''username'' = [] \<or> dataString secret ''password'' = []) \<longrightarrow>
      Status (fst (ValidateSecret env n ns config)) = ConditionFalse
      \<and> Reason (fst (ValidateSecret env n ns config)) = ''SecretMissingKeys'')
   \<and> (CertificateAuthorityData spec \<noteq> []
      \<and> (DecodeString env (CertificateAuthorityData spec) = Inl e
          \<or> DecodeString env (CertificateAuthorityData spec) = Inr bundle
             \<and> \<not> AppendCertsFromPEM env bundle) \<longrightarrow>
      Status (fst (ValidateTLSConfig env (Some spec) config)) = ConditionFalse
      \<and> Reason (fst (ValidateTLSConfig env (Some spec) config)) = ''InvalidTLSConfig'')
   \<and> (ProviderTestConnection env (config\<lparr>ConnectionProtocol := TLS\<rparr>) = Some e1
      \<and> ProviderTestConnection env (config\<lparr>ConnectionProtocol := StartTLS\<rparr>) = Some e2 \<longrightarrow>
      Status (fst (TestConnection env n config v log)) = ConditionFalse
      \<and> Reason (fst (TestConnection env n config v log)) = ''LDAPConnectionError'')"
proof -
  have a: "SecretsGet env ns n = Inl err \<longrightarrow>
      ValidateSecret env n ns config =
        (\<lparr>Type = typeBindSecretValid, Status = ConditionFalse, Reason = ''SecretNotFound'',
          Message = Error err, ObservedGeneration = 0\<rparr>, [], config)"
    by (simp add: ValidateSecret_lookup_failed ReasonNotFound_def)
  have b: "SecretsGet env (Namespace upstream) (BindSecretName (Spec upstream)) = Inl err \<longrightarrow>
      (\<exists>tlsValidCondition config'.
         ValidateGenericLDAP env upstream cache config log =
           (\<lparr>gradatedConditions =
              [\<lparr>condition = Some \<lparr>Type = typeBindSecretValid, Status = ConditionFalse,
                                   Reason = ''SecretNotFound'', Message = Error err,
                                   ObservedGeneration = 0\<rparr>, isFatal = True\<rparr>,
               \<lparr>condition = Some tlsValidCondition, isFatal = True\<rparr>]\<rparr>,
            cache, config', log))"
    by (simp add: ValidateGenericLDAP_def Let_def Append_def ValidateSecret_lookup_failed
        ReasonNotFound_def ConditionTrue_def ConditionFalse_def split: prod.splits)
  have c: "SecretsGet env ns n = Inr secret \<and> Type_secret secret \<noteq> SecretTypeBasicAuth \<longrightarrow>
      Status (fst (ValidateSecret env n ns config)) = ConditionFalse
      \<and> Reason (fst (ValidateSecret env n ns config)) = ''SecretWrongType''"
    by (simp add: ValidateSecret_def ReasonWrongType_def)
  have d: "SecretsGet env ns n = Inr secret \<and> Type_secret secret = SecretTypeBasicAuth
      \<and> (dataString secret ''username'' = [] \<or> dataString secret ''password'' = []) \<longrightarrow>
      Status (fst (ValidateSecret env n ns config)) = ConditionFalse
      \<and> Reason (fst (ValidateSecret env n ns config)) = ''SecretMissingKeys''"
    by (auto simp: ValidateSecret_def Let_def ReasonMissingKeys_def BasicAuthUsernameKey_def
        BasicAuthPasswordKey_def)
  have e: "CertificateAuthorityData spec \<noteq> []
      \<and> (DecodeString env (CertificateAuthorityData spec) = Inl e
          \<or> DecodeString env (CertificateAuthorityData spec) = Inr bundle
             \<and> \<not> AppendCertsFromPEM env bundle) \<longrightarrow>
      Status (fst (ValidateTLSConfig env (Some spec) config)) = ConditionFalse
      \<and> Reason (fst (ValidateTLSConfig env (Some spec) config)) = ''InvalidTLSConfig''"
    by (auto simp: ValidateTLSConfig_def invalidTLSCondition_def ReasonInvalidTLSConfig_def)
  have f: "ProviderTestConnection env (config\<lparr>ConnectionProtocol := TLS\<rparr>) = Some e1
      \<and> ProviderTestConnection env (config\<lparr>ConnectionProtocol := StartTLS\<rparr>) = Some e2 \<longrightarrow>
      Status (fst (TestConnection env n config v log)) = ConditionFalse
      \<and> Reason (fst (TestConnection env n config v log)) = ''LDAPConnectionError''"
    by (simp add: TestConnection_both_fail connectionCondition_Some reasonLDAPConnectionError_def)
  from a b c d e f show ?thesis by blast
qed

theorem failures_become_conditions_witness:
  "SecretsGet exampleEnvLookupBroken ''pinniped'' ''bind-secret''
     = Inl (UnexpectedError ''etcdserver: request timed out'')
   \<and> ValidateSecret exampleEnvLookupBroken ''bind-secret'' ''pinniped'' exampleConfig
     = (\<lparr>Type = typeBindSecretValid, Status = ConditionFalse, Reason = ''SecretNotFound'',
         Message = ''etcdserver: request timed out'', ObservedGeneration = 0\<rparr>,
        [], exampleConfig)
   \<and> length (gradatedConditions (fst (ValidateGenericLDAP exampleEnvLookupBroken exampleUpstream
        NewValidatedSettingsCache exampleConfig []))) = 2
   \<and> snd (snd (snd (ValidateGenericLDAP exampleEnvLookupBroken exampleUpstream
        NewValidatedSettingsCache exampleConfig []))) = []
   \<and> Type_secret \<lparr>Type_secret = ''some-other-type'', ResourceVersion = ''4242'',
        Data = [''username'' \<mapsto> ''cn=admin'', ''password'' \<mapsto> ''hunter2'']\<rparr>
      \<noteq> SecretTypeBasicAuth
   \<and> Reason (fst (ValidateSecret exampleEnvWrongType ''bind-secret'' ''pinniped'' exampleConfig))
     = ''SecretWrongType''
   \<and> dataString \<lparr>Type_secret = SecretTypeBasicAuth, ResourceVersion = ''4242'',
        Data = [''username'' \<mapsto> ''cn=admin'']\<rparr> ''password'' = []
   \<and> Reason (fst (ValidateSecret exampleEnvNoKeys ''bind-secret'' ''pinniped'' exampleConfig))
     = ''SecretMissingKeys''
   \<and> DecodeString exampleEnv ''!!!!'' = Inl ''illegal base64 data at input byte 4''
   \<and> Status (fst (ValidateTLSConfig exampleEnv (Some \<lparr>CertificateAuthorityData = ''!!!!''\<rparr>)
        exampleConfig)) = ConditionFalse
   \<and> ProviderTestConnection exampleEnvDown (exampleConfig\<lparr>ConnectionProtocol := StartTLS\<rparr>)
     = Some ''StartTLS is not supported''
   \<and> Status (fst (TestConnection exampleEnvDown ''bind-secret'' exampleConfig ''4242'' []))
     = ConditionFalse"
proof -
  have a: "ValidateSecret exampleEnvLookupBroken ''bind-secret'' ''pinniped'' exampleConfig
     = (\<lparr>Type = typeBindSecretValid, Status = ConditionFalse, Reason = ''SecretNotFound'',
         Message = ''etcdserver: request timed out'', ObservedGeneration = 0\<rparr>,
        [], exampleConfig)"
    using failures_become_conditions [where env = exampleEnvLookupBroken
        and ns = "''pinniped''" and n = "''bind-secret''" and config = exampleConfig
        and err = "UnexpectedError ''etcdserver: request timed out''", THEN conjunct1]
    by (simp add: exampleEnvLookupBroken_def)
  have b: "length (gradatedConditions (fst (ValidateGenericLDAP exampleEnvLookupBroken
        exampleUpstream NewValidatedSettingsCache exampleConfig []))) = 2
      \<and> snd (snd (snd (ValidateGenericLDAP exampleEnvLookupBroken exampleUpstream
        NewValidatedSettingsCache exampleConfig []))) = []"
    using failures_become_conditions [where env = exampleEnvLookupBroken
        and upstream = exampleUpstream and config = exampleConfig
        and cache = NewValidatedSettingsCache and log = "[]"
        and err = "UnexpectedError ''etcdserver: request timed out''",
        THEN conjunct2, THEN conjunct1]
    by (auto simp: exampleEnvLookupBroken_def)
  have c: "Reason (fst (ValidateSecret exampleEnvWrongType ''bind-secret'' ''pinniped''
        exampleConfig)) = ''SecretWrongType''"
    using failures_become_conditions [where env = exampleEnvWrongType
        and ns = "''pinniped''" and n = "''bind-secret''" and config = exampleConfig
        and secret = "\<lparr>Type_secret = ''some-other-type'', ResourceVersion = ''4242'',
          Data = [''username'' \<mapsto> ''cn=admin'', ''password'' \<mapsto> ''hunter2'']\<rparr>",
        THEN conjunct2, THEN conjunct2, THEN conjunct1]
    by (simp add: exampleEnvWrongType_def SecretTypeBasicAuth_def)
  have d: "Reason (fst (ValidateSecret exampleEnvNoKeys ''bind-secret'' ''pinniped''
        exampleConfig)) = ''SecretMissingKeys''"
    using failures_become_conditions [where env = exampleEnvNoKeys
        and ns = "''pinniped''" and n = "''bind-secret''" and config = exampleConfig
        and secret = "\<lparr>Type_secret = SecretTypeBasicAuth, ResourceVersion = ''4242'',
          Data = [''username'' \<mapsto> ''cn=admin'']\<rparr>",
        THEN conjunct2, THEN conjunct2, THEN conjunct2, THEN conjunct1]
    by (simp add: exampleEnvNoKeys_def dataString_def)
  have e: "Status (fst (ValidateTLSConfig exampleEnv
        (Some \<lparr>CertificateAuthorityData = ''!!!!''\<rparr>) exampleConfig)) = ConditionFalse"
    using failures_become_conditions [where env = exampleEnv and config = exampleConfig
        and spec = "\<lparr>CertificateAuthorityData = ''!!!!''\<rparr>"
        and e = "''illegal base64 data at input byte 4''",
        THEN conjunct2, THEN conjunct2, THEN conjunct2, THEN conjunct2, THEN conjunct1]
    by (simp add: exampleEnv_def)
  have f: "Status (fst (TestConnection exampleEnvDown ''bind-secret'' exampleConfig ''4242'' []))
     = ConditionFalse"
    using failures_become_conditions [where env = exampleEnvDown and config = exampleConfig
        and n = "''bind-secret''" and v = "''4242''" and log = "[]"
        and ?e1.0 = "''some dial error''" and ?e2.0 = "''StartTLS is not supported''",
        THEN conjunct2, THEN conjunct2, THEN conjunct2, THEN conjunct2, THEN conjunct2]
    by (simp add: exampleEnvDown_def exampleEnv_def TLS_def StartTLS_def)
  show ?thesis
    using a b c d e f
    by (simp add: exampleEnvLookupBroken_def exampleEnvDown_def exampleEnv_def dataString_def
        SecretTypeBasicAuth_def TLS_def StartTLS_def)
qed

end
